theory Spec2Isabelle
  imports Main
begin

section \<open>Python strings\<close>

text \<open>
  Text is a list of 8-bit characters. The string methods the agent uses are written
  out here with Python's conventions: \<open>find\<close> answers \<open>-1\<close> when there is no
  occurrence, \<open>strip\<close> removes white space at both ends, \<open>split\<close> on a separator
  always yields at least one piece. Case mapping and white space are those of the ASCII
  range; other characters are left alone and are never white space.
\<close>

definition is_space :: "char \<Rightarrow> bool" where
  "is_space c = (let n = (of_char c :: nat) in (9 \<le> n \<and> n \<le> 13) \<or> (28 \<le> n \<and> n \<le> 32))"

definition str_strip :: "string \<Rightarrow> string" where
  "str_strip s = rev (dropWhile is_space (rev (dropWhile is_space s)))"

definition lower_char :: "char \<Rightarrow> char" where
  "lower_char c = (let n = (of_char c :: nat) in if 65 \<le> n \<and> n \<le> 90 then char_of (n + 32) else c)"

definition upper_char :: "char \<Rightarrow> char" where
  "upper_char c = (let n = (of_char c :: nat) in if 97 \<le> n \<and> n \<le> 122 then char_of (n - 32) else c)"

definition str_lower :: "string \<Rightarrow> string" where
  "str_lower s = map lower_char s"

definition str_upper :: "string \<Rightarrow> string" where
  "str_upper s = map upper_char s"

definition startswith :: "string \<Rightarrow> string \<Rightarrow> bool" where
  "startswith s p = (take (length p) s = p)"

fun find_aux :: "string \<Rightarrow> string \<Rightarrow> nat \<Rightarrow> int" where
  "find_aux sub [] i = (if sub = [] then int i else - 1)"
| "find_aux sub (c # cs) i =
     (if startswith (c # cs) sub then int i else find_aux sub cs (Suc i))"

definition str_find :: "string \<Rightarrow> string \<Rightarrow> nat \<Rightarrow> int" where
  \<comment> \<open>\<open>s.find(sub, start)\<close>: the lowest index at or after \<open>start\<close>, or \<open>-1\<close>.\<close>
  "str_find s sub start =
     (if length s < start then - 1 else find_aux sub (drop start s) start)"

definition contains :: "string \<Rightarrow> string \<Rightarrow> bool" where
  \<comment> \<open>\<open>sub in s\<close>\<close>
  "contains s sub = (0 \<le> str_find s sub 0)"

definition slice :: "string \<Rightarrow> int \<Rightarrow> int \<Rightarrow> string" where
  \<comment> \<open>\<open>s[i:j]\<close> for indices that are not negative\<close>
  "slice s i j = take (nat j - nat i) (drop (nat i) s)"

definition slice_from :: "string \<Rightarrow> int \<Rightarrow> string" where
  \<comment> \<open>\<open>s[i:]\<close> for an index that is not negative\<close>
  "slice_from s i = drop (nat i) s"

fun split_on :: "char \<Rightarrow> string \<Rightarrow> string list" where
  "split_on d [] = [[]]"
| "split_on d (c # cs) =
     (if c = d then [] # split_on d cs
      else (case split_on d cs of [] \<Rightarrow> [[c]] | l # ls \<Rightarrow> (c # l) # ls))"

definition after_colon :: "string \<Rightarrow> string" where
  \<comment> \<open>\<open>line.split(':', 1)[1]\<close> on a line that has a colon\<close>
  "after_colon line = tl (dropWhile (\<lambda>c. c \<noteq> CHR '':'') line)"

definition after_first :: "string \<Rightarrow> string \<Rightarrow> string" where
  \<comment> \<open>\<open>s.split(sub, 1)[1]\<close> on a text that contains \<open>sub\<close>\<close>
  "after_first sub s = drop (nat (str_find s sub 0) + length sub) s"

definition truthy :: "string option \<Rightarrow> bool" where
  \<comment> \<open>Python's truth value of a value that is \<open>None\<close> or a string\<close>
  "truthy v = (case v of None \<Rightarrow> False | Some s \<Rightarrow> s \<noteq> [])"

section \<open>Response parser\<close>

text \<open>
  The parsing part of \<open>_plan_and_execute\<close>. A response with the marker
  \<open>ACTION: CODE_GENERATION\<close> is searched for a fenced block; any other response is
  read line by line.
\<close>

definition fence_open :: string where
  "fence_open = ''```python\<newline>''"

definition fence_close :: string where
  "fence_close = ''```''"

definition extract_code :: "string \<Rightarrow> string option" where
  "extract_code response_text =
     (let start = str_find response_text fence_open 0 + 10;
          end = str_find response_text fence_close (nat start)
      in if start > 9 \<and> end > start
         then Some (str_strip (slice response_text start end)) else None)"

definition extract_explanation :: "string \<Rightarrow> string option" where
  "extract_explanation response_text =
     (if contains response_text ''EXPLANATION:''
      then Some (str_strip (after_first ''EXPLANATION:'' response_text)) else None)"

definition parse_line :: "string option \<times> string option \<Rightarrow> string \<Rightarrow> string option \<times> string option" where
  "parse_line acc line =
     (if startswith line ''ACTION:''
      then (Some (str_upper (str_strip (after_colon line))), snd acc)
      else if startswith line ''EXPLANATION:''
      then (fst acc, Some (str_strip (after_colon line)))
      else acc)"

definition parse_lines :: "string \<Rightarrow> string option \<times> string option" where
  "parse_lines response_text = foldl parse_line (None, None) (split_on CHR 10 response_text)"

record parsed =
  action :: "string option"
  code :: "string option"
  explanation :: "string option"

definition parse_response :: "string \<Rightarrow> parsed" where
  "parse_response response_text =
     (if contains response_text ''ACTION: CODE_GENERATION''
      then \<lparr>action = Some ''CODE_GENERATION'',
            code = extract_code response_text,
            explanation = extract_explanation response_text\<rparr>
      else (let r = parse_lines response_text
            in \<lparr>action = fst r, code = None, explanation = snd r\<rparr>))"

section \<open>Exceptions and standard input\<close>

text \<open>
  An exception carries the name of its class (\<open>type(e).__name__\<close>) and its message
  (\<open>str(e)\<close>). The handlers of this program are \<open>except Exception\<close> and
  \<open>except ImportError\<close>, so an exception also records where its class sits:
  below \<open>ImportError\<close>, elsewhere below \<open>Exception\<close>, or outside \<open>Exception\<close>
  (\<open>SystemExit\<close>, \<open>KeyboardInterrupt\<close>, \<open>GeneratorExit\<close>).
\<close>

datatype exn_class = ImportErrorClass | ExceptionClass | BaseExceptionClass

datatype exn = Exn (cls: exn_class) (kind: string) (msg: string)

definition is_exception :: "exn \<Rightarrow> bool" where
  "is_exception e = (cls e \<noteq> BaseExceptionClass)"

definition is_import_error :: "exn \<Rightarrow> bool" where
  "is_import_error e = (cls e = ImportErrorClass)"

text \<open>
  Standard input is the sequence of events that \<open>input()\<close> will meet: a line, or an
  end of file (which a terminal can deliver and then go on). Reading past the last
  event is an end of file too.
\<close>

datatype input_event = Line string | EndOfFile

definition eof_error :: exn where
  "eof_error = Exn ExceptionClass ''EOFError'' ''EOF when reading a line''"

fun read_input :: "input_event list \<Rightarrow> (exn + string) \<times> input_event list" where
  "read_input [] = (Inl eof_error, [])"
| "read_input (EndOfFile # rest) = (Inl eof_error, rest)"
| "read_input (Line s # rest) = (Inr s, rest)"

section \<open>Datasets\<close>

text \<open>
  A frame is what the agent observes of a pandas DataFrame: the length of its index and
  its columns in order, each with a label, a dtype name and its cells, where \<open>None\<close>
  is a missing value. Labels are taken to be distinct, as \<open>read_csv\<close> delivers them.
\<close>

record column =
  cname :: string
  dtype :: string
  cells :: "string option list"

record frame =
  nrows :: nat
  cols :: "column list"

record data_info =
  shape :: "nat \<times> nat"
  columns :: "string list"
  dtypes :: "(string \<times> string) list"
  null_counts :: "(string \<times> nat) list"

definition isnull_sum :: "column \<Rightarrow> nat" where
  "isnull_sum c = length (filter (\<lambda>v. v = None) (cells c))"

definition frame_info :: "frame \<Rightarrow> data_info" where
  "frame_info df =
     \<lparr>shape = (nrows df, length (cols df)),
      columns = map cname (cols df),
      dtypes = map (\<lambda>c. (cname c, dtype c)) (cols df),
      null_counts = map (\<lambda>c. (cname c, isnull_sum c)) (cols df)\<rparr>"

definition has_column :: "frame \<Rightarrow> string \<Rightarrow> bool" where
  \<comment> \<open>\<open>name in df.columns\<close>\<close>
  "has_column df name = (name \<in> set (map cname (cols df)))"

definition get_column :: "frame \<Rightarrow> string \<Rightarrow> column option" where
  \<comment> \<open>\<open>df[name]\<close>\<close>
  "get_column df name = List.find (\<lambda>c. cname c = name) (cols df)"

definition set_column :: "frame \<Rightarrow> string \<Rightarrow> column \<Rightarrow> frame" where
  \<comment> \<open>\<open>df[name] = c\<close> for a label the frame has: the column is replaced in place\<close>
  "set_column df name c =
     df\<lparr>cols := map (\<lambda>old. if cname old = name then c\<lparr>cname := name\<rparr> else old) (cols df)\<rparr>"

section \<open>What the snippet and the libraries do\<close>

text \<open>
  The namespace handed to \<open>exec\<close> is a dictionary in insertion order. A value in it
  is a DataFrame or any other object, known by its \<open>str\<close>.
\<close>

datatype pyval = DataFrame frame | Object string

type_synonym namespace = "(string \<times> pyval) list"

text \<open>
  What one \<open>exec\<close> of a snippet does: it raises or not, leaves bindings in the
  namespace, prints, and may change the bound frame in place.
\<close>

record exec_outcome =
  raised :: "exn option"
  locals_after :: namespace
  printed :: string
  frame_after :: "frame option"

type_synonym analysis = string

text \<open>
  The collaborators outside this repository: the Python interpreter and import system,
  pip, pandas, the forecasting library, the text renderers and the oracle. The oracle
  is the sequence of its answers, each a text or an exception. Two functions of
  \<open>tools_manager.py\<close> are taken by their results, since they only wrap such
  collaborators: \<open>extract_imports_from_code\<close> (the \<open>ast\<close> module) and
  \<open>install_package\<close> (a pip subprocess). A snippet is taken not to read standard
  input.
\<close>

record env =
  extract_imports :: "string \<Rightarrow> string list"
  is_stdlib :: "string \<Rightarrow> bool"
  import_module :: "string \<Rightarrow> exn option"
  install_package :: "string \<Rightarrow> bool"
  import_installed :: "string \<Rightarrow> exn option"
  to_datetime :: "column \<Rightarrow> exn + column"
  exec_snippet :: "string \<Rightarrow> namespace \<Rightarrow> frame option \<Rightarrow> exec_outcome"
  format_exc :: "exn \<Rightarrow> string"
  tabulate_head :: "frame \<Rightarrow> string"
  repr_value :: "pyval \<Rightarrow> string"
  llm_invoke :: "nat \<Rightarrow> exn + string"
  read_csv :: "string \<Rightarrow> exn + frame"
  descriptive_analysis :: "frame \<Rightarrow> string option \<Rightarrow> string option \<Rightarrow> exn + analysis"
  prophet_forecast :: "frame \<Rightarrow> string option \<Rightarrow> string option \<Rightarrow> exn + string"

section \<open>ToolsManager\<close>

subsection \<open>Rendering\<close>

fun show_nat :: "nat \<Rightarrow> string" where
  "show_nat n =
     (if n < 10 then [char_of (48 + n)]
      else show_nat (n div 10) @ [char_of (48 + n mod 10)])"

declare show_nat.simps [simp del]

definition join :: "string \<Rightarrow> string list \<Rightarrow> string" where
  \<comment> \<open>\<open>sep.join(xs)\<close>\<close>
  "join sep xs = (case xs of [] \<Rightarrow> [] | x # rest \<Rightarrow> x @ concat (map (\<lambda>y. sep @ y) rest))"

definition quote :: "string \<Rightarrow> string" where
  \<comment> \<open>\<open>repr\<close> of a string that needs no escape\<close>
  "quote s = [CHR 0x27] @ s @ [CHR 0x27]"

definition show_shape :: "nat \<times> nat \<Rightarrow> string" where
  "show_shape sh = ''('' @ show_nat (fst sh) @ '', '' @ show_nat (snd sh) @ '')''"

definition show_labels :: "string list \<Rightarrow> string" where
  "show_labels xs = ''['' @ join '', '' (map quote xs) @ '']''"

subsection \<open>Dependencies\<close>

text \<open>
  \<open>check_and_install_dependencies\<close>. A module outside the standard library is probed
  by importing it; only an \<open>ImportError\<close> marks it missing, any other exception
  leaves the function.
\<close>

fun find_missing :: "env \<Rightarrow> string list \<Rightarrow> exn + string list" where
  "find_missing env [] = Inr []"
| "find_missing env (m # ms) =
     (if is_stdlib env m then find_missing env ms
      else (case import_module env m of
              None \<Rightarrow> find_missing env ms
            | Some e \<Rightarrow>
                if is_import_error e
                then (case find_missing env ms of Inl e' \<Rightarrow> Inl e' | Inr r \<Rightarrow> Inr (m # r))
                else Inl e))"

fun install_all :: "env \<Rightarrow> string list \<Rightarrow> exn + bool" where
  "install_all env [] = Inr True"
| "install_all env (p # ps) =
     (if install_package env p
      then (case import_installed env p of
              None \<Rightarrow> install_all env ps
            | Some e \<Rightarrow> if is_import_error e then Inr False else Inl e)
      else Inr False)"

definition check_and_install_dependencies ::
  "env \<Rightarrow> string \<Rightarrow> input_event list \<Rightarrow> (exn + bool) \<times> input_event list" where
  "check_and_install_dependencies env code_snippet ins =
     (case find_missing env (extract_imports env code_snippet) of
        Inl e \<Rightarrow> (Inl e, ins)
      | Inr missing_packages \<Rightarrow>
          if missing_packages \<noteq> []
          then (case read_input ins of
                  (Inl e, ins') \<Rightarrow> (Inl e, ins')
                | (Inr l, ins') \<Rightarrow>
                    if str_lower l = ''yes'' then (install_all env missing_packages, ins')
                    else (Inr False, ins'))
          else (Inr True, ins))"

subsection \<open>Code execution\<close>

record debug_info =
  data_info :: "data_info option"
  imports_loaded :: "string list"
  execution_step :: string

record error_context =
  error_type :: string
  error_msg :: string
  ec_debug_info :: debug_info
  traceback :: string

text \<open>
  The dictionary \<open>execute_code\<close> returns. A key that a path does not set is
  \<open>None\<close> here; \<open>results\<close> is also \<open>None\<close> where the code stores \<open>None\<close>.
\<close>

record exec_result =
  output_text :: string
  results :: "namespace option"
  success :: bool
  debug_info :: "debug_info option"
  error_context :: "error_context option"

definition prepare :: "string \<Rightarrow> string" where
  "prepare code_snippet =
     (if contains code_snippet ''import plotly''
      then ''import warnings\<newline>warnings.filterwarnings('ignore', 'Importing plotly failed')\<newline>''
           @ code_snippet
      else code_snippet)"

definition bind_dataset ::
  "env \<Rightarrow> frame option \<Rightarrow> debug_info \<Rightarrow> namespace \<Rightarrow>
     (exn + debug_info \<times> namespace) \<times> frame option" where
  \<comment> \<open>\<open>if df is not None: local_vars['df'] = df; if 'date' in df.columns: ...\<close>\<close>
  "bind_dataset env df dbg local_vars =
     (case df of
        None \<Rightarrow> (Inr (dbg, local_vars), None)
      | Some f \<Rightarrow>
          (case get_column f ''date'' of
             None \<Rightarrow> (Inr (dbg, local_vars @ [(''df'', DataFrame f)]), Some f)
           | Some c \<Rightarrow>
               (case to_datetime env c of
                  Inl e \<Rightarrow> (Inl e, Some f)
                | Inr c' \<Rightarrow>
                    let f' = set_column f ''date'' c'
                    in (Inr (dbg\<lparr>execution_step := ''datetime conversion done''\<rparr>,
                             local_vars @ [(''df'', DataFrame f')]), Some f'))))"

definition collect_results :: "namespace \<Rightarrow> namespace" where
  "collect_results local_vars =
     filter (\<lambda>(k, v). k \<notin> set [''df'', ''pd'', ''np''] \<and> \<not> startswith k ''__'') local_vars"

definition initial_debug_info :: "frame option \<Rightarrow> debug_info" where
  \<comment> \<open>\<open>debug_info\<close> once \<open>data_info\<close> is filled in, before the dataset is bound\<close>
  "initial_debug_info df =
     (let dbg = \<lparr>data_info = None, imports_loaded = [], execution_step = ''initializing''\<rparr>
      in case df of None \<Rightarrow> dbg | Some f \<Rightarrow> dbg\<lparr>data_info := Some (frame_info f)\<rparr>)"

definition initial_locals :: namespace where
  "initial_locals = [(''pd'', Object ''pd''), (''np'', Object ''np'')]"

definition try_body ::
  "env \<Rightarrow> string \<Rightarrow> frame option \<Rightarrow> (exn \<times> debug_info + exec_result) \<times> frame option" where
  \<comment> \<open>the body of the \<open>try\<close>; an exception comes with \<open>debug_info\<close> as it stands then\<close>
  "try_body env code_snippet df =
     (case bind_dataset env df (initial_debug_info df) initial_locals of
        (Inl e, df1) \<Rightarrow> (Inl (e, initial_debug_info df), df1)
      | (Inr (dbg2, local_vars), df1) \<Rightarrow>
          (let dbg3 = dbg2\<lparr>execution_step := ''executing code''\<rparr>;
               out = exec_snippet env code_snippet local_vars df1
           in case raised out of
                Some e \<Rightarrow> (Inl (e, dbg3), frame_after out)
              | None \<Rightarrow>
                  (let dbg4 = dbg3\<lparr>execution_step := ''collecting results''\<rparr>
                   in (Inr \<lparr>output_text = printed out,
                            results = Some (collect_results (locals_after out)),
                            success = True,
                            debug_info = Some dbg4,
                            error_context = None\<rparr>, frame_after out))))"

definition render_error :: "exn \<Rightarrow> debug_info \<Rightarrow> string" where
  "render_error e dbg =
     ''Error executing code: '' @ msg e @ ''\<newline>''
     @ ''\<newline>Debug Information:\<newline>''
     @ ''Error Type: '' @ kind e @ ''\<newline>''
     @ ''Last Execution Step: '' @ execution_step dbg @ ''\<newline>''
     @ (case data_info dbg of
          None \<Rightarrow> []
        | Some di \<Rightarrow>
            ''\<newline>DataFrame Info:\<newline>''
            @ ''Shape: '' @ show_shape (shape di) @ ''\<newline>''
            @ ''Columns: '' @ show_labels (columns di) @ ''\<newline>''
            @ ''Data Types:\<newline>''
            @ concat (map (\<lambda>(col, dt). ''  '' @ col @ '': '' @ dt @ ''\<newline>'') (dtypes di))
            @ ''Null Counts:\<newline>''
            @ concat (map (\<lambda>(col, count).
                        if count > 0 then ''  '' @ col @ '': '' @ show_nat count @ ''\<newline>''
                        else []) (null_counts di)))"

definition on_exception :: "env \<Rightarrow> exn \<Rightarrow> debug_info \<Rightarrow> exn + exec_result" where
  \<comment> \<open>\<open>except Exception as e\<close>: any other exception goes on to the caller\<close>
  "on_exception env e dbg =
     (if is_exception e
      then Inr \<lparr>output_text = render_error e dbg,
                results = None,
                success = False,
                debug_info = None,
                error_context = Some \<lparr>error_type = kind e, error_msg = msg e,
                                      ec_debug_info = dbg, traceback = format_exc env e\<rparr>\<rparr>
      else Inl e)"

definition execute_code ::
  "env \<Rightarrow> string \<Rightarrow> frame option \<Rightarrow> input_event list \<Rightarrow>
     (exn + exec_result) \<times> frame option \<times> input_event list" where
  "execute_code env code_snippet0 df ins =
     (let code_snippet = prepare code_snippet0
      in case check_and_install_dependencies env code_snippet ins of
           (Inl e, ins') \<Rightarrow> (Inl e, df, ins')
         | (Inr False, ins') \<Rightarrow>
             (Inr \<lparr>output_text = ''Required packages not installed. Cannot execute code.'',
                   results = None, success = False,
                   debug_info = None, error_context = None\<rparr>, df, ins')
         | (Inr True, ins') \<Rightarrow>
             (case try_body env code_snippet df of
                (Inl (e, dbg), df') \<Rightarrow> (on_exception env e dbg, df', ins')
              | (Inr r, df') \<Rightarrow> (Inr r, df', ins')))"

definition show_value :: "env \<Rightarrow> pyval \<Rightarrow> string" where
  "show_value env v = (case v of DataFrame f \<Rightarrow> tabulate_head env f | Object s \<Rightarrow> s)"

definition show_results :: "env \<Rightarrow> namespace option \<Rightarrow> string" where
  \<comment> \<open>\<open>str(result['results'])\<close>\<close>
  "show_results env rs =
     (case rs of
        None \<Rightarrow> ''None''
      | Some ns \<Rightarrow> ''{'' @ join '', '' (map (\<lambda>(k, v). quote k @ '': '' @ repr_value env v) ns) @ ''}'')"

definition format_code_output :: "env \<Rightarrow> exec_result \<Rightarrow> string" where
  "format_code_output env execution_result =
     join ''\<newline>''
       ([''\<newline>=== Code Execution Results ===''] @
        (if success execution_result
         then (if output_text execution_result \<noteq> []
               then [''\<newline>Output:'', output_text execution_result] else [])
              @ (case results execution_result of
                   None \<Rightarrow> []
                 | Some ns \<Rightarrow>
                     if ns \<noteq> []
                     then [''\<newline>Returned Variables:'']
                          @ concat (map (\<lambda>(var_name, v).
                                      [''\<newline>'' @ var_name @ '':'', show_value env v]) ns)
                     else [])
         else [''\<newline>Execution Failed:'', output_text execution_result]))"

section \<open>MemoryManager\<close>

text \<open>
  The records of a session. Time stamps and the session identifier are left out: no
  decision of the agent reads them.
\<close>

record attempt_record =
  a_attempt :: nat
  a_code :: string
  a_error :: string
  a_debug_info :: "debug_info option"
  a_error_context :: "error_context option"

record interaction =
  i_query :: string
  i_response :: string
  i_code :: "string option"
  i_error :: "string option"
  i_fixes :: "attempt_record list option"
  i_result :: "string option"

record dataset_info =
  di_target_column :: "string option"
  di_series_id_column :: "string option"
  di_shape :: "nat \<times> nat"
  di_columns :: "string list"

datatype mem_item =
  DatasetInfoItem dataset_info
| AnalysisItem analysis
| InteractionItem interaction

record memory_manager =
  short_term_memory :: "mem_item list"
  long_term_memory :: "mem_item list"
  conversation_history :: "interaction list"
  last_execution :: "interaction option"

definition store_dataset_info :: "dataset_info \<Rightarrow> memory_manager \<Rightarrow> memory_manager" where
  "store_dataset_info info m =
     m\<lparr>short_term_memory := short_term_memory m @ [DatasetInfoItem info]\<rparr>"

definition store_analysis :: "analysis \<Rightarrow> memory_manager \<Rightarrow> memory_manager" where
  "store_analysis an m =
     m\<lparr>short_term_memory := short_term_memory m @ [AnalysisItem an]\<rparr>"

definition store_interaction ::
  "string \<Rightarrow> string \<Rightarrow> string option \<Rightarrow> string option \<Rightarrow> attempt_record list option \<Rightarrow>
     string option \<Rightarrow> memory_manager \<Rightarrow> memory_manager" where
  "store_interaction query response code' error' fixes result m =
     (let interaction = \<lparr>i_query = query, i_response = response, i_code = code',
                          i_error = error', i_fixes = fixes, i_result = result\<rparr>
      in m\<lparr>conversation_history := conversation_history m @ [interaction],
            last_execution := Some interaction,
            short_term_memory := short_term_memory m @ [InteractionItem interaction]\<rparr>)"

section \<open>ForecastingAgent\<close>

record execution_context =
  csv_path :: "string option"
  target_column :: "string option"
  series_id_column :: "string option"
  data_info_text :: "string option"

text \<open>
  The agent with what it reads from the world: \<open>llm\<close> tells whether an oracle handle
  is set, \<open>llm_calls\<close> counts the invocations made so far, \<open>stdin\<close> is the input
  still to come. What the agent prints is not kept, and neither is the text of a prompt:
  only the exceptions that building it can raise are.
\<close>

record agent =
  memory :: memory_manager
  llm :: bool
  current_data :: "frame option"
  current_context :: execution_context
  last_code :: "string option"
  last_error :: "string option"
  last_result :: "string option"
  llm_calls :: nat
  stdin :: "input_event list"

datatype retval = Str string | AnalysisResult analysis

type_synonym outcome = "(exn + retval) \<times> agent"

definition invoke :: "env \<Rightarrow> agent \<Rightarrow> (exn + string) \<times> agent" where
  \<comment> \<open>\<open>self.llm.invoke(prompt)\<close>; the prompt does not reach the model of the oracle\<close>
  "invoke env a =
     (if llm a then (llm_invoke env (llm_calls a), a\<lparr>llm_calls := Suc (llm_calls a)\<rparr>)
      else (Inl (Exn ExceptionClass ''AttributeError''
                   (quote ''NoneType'' @ '' object has no attribute '' @ quote ''invoke'')), a))"

definition read_csv_at :: "env \<Rightarrow> string option \<Rightarrow> exn + frame" where
  \<comment> \<open>\<open>pd.read_csv(csv_path)\<close>; pandas rejects \<open>None\<close>\<close>
  "read_csv_at env path =
     (case path of
        None \<Rightarrow> Inl (Exn ExceptionClass ''ValueError''
                       ''Invalid file path or buffer object type: <class 'NoneType'>'')
      | Some p \<Rightarrow> read_csv env p)"

definition process_dataset ::
  "env \<Rightarrow> string option \<Rightarrow> string option \<Rightarrow> string option \<Rightarrow> agent \<Rightarrow> (exn + analysis) \<times> agent" where
  "process_dataset env path target series a =
     (case read_csv_at env path of
        Inl e \<Rightarrow> (Inl e, a)
      | Inr df \<Rightarrow>
          (let a1 = a\<lparr>memory := store_dataset_info
                        \<lparr>di_target_column = target, di_series_id_column = series,
                         di_shape = shape (frame_info df), di_columns = columns (frame_info df)\<rparr>
                        (memory a)\<rparr>
           in case descriptive_analysis env df target series of
                Inl e \<Rightarrow> (Inl e, a1)
              | Inr an \<Rightarrow> (Inr an, a1\<lparr>memory := store_analysis an (memory a1)\<rparr>)))"

definition generate_forecast ::
  "env \<Rightarrow> frame option \<Rightarrow> string option \<Rightarrow> string option \<Rightarrow> exn + string" where
  "generate_forecast env df target series =
     (case df of
        None \<Rightarrow> Inr ''No data available for forecasting. Please analyze a dataset first.''
      | Some f \<Rightarrow> prophet_forecast env f target series)"

definition data_context :: "frame option \<Rightarrow> exn option" where
  \<comment> \<open>the exception, if any, of formatting the \<open>Data Context\<close> lines of a repair prompt:
      \<open>len(self.current_data)\<close> and \<open>self.current_data['date'].dtype\<close>\<close>
  "data_context df =
     (case df of
        None \<Rightarrow> Some (Exn ExceptionClass ''TypeError'' ''object of type 'NoneType' has no len()'')
      | Some f \<Rightarrow>
          if has_column f ''date'' then None
          else Some (Exn ExceptionClass ''KeyError'' (quote ''date'')))"

subsection \<open>The repair loop\<close>

text \<open>
  The \<open>while True\<close> loop of \<open>_plan_and_execute\<close>. One pass through its body ends
  in a \<open>return\<close>, an exception that leaves the loop, a \<open>break\<close>, or the next pass.
  The loop variables are \<open>attempt\<close>, \<open>attempt_history\<close>, \<open>code\<close> and
  \<open>explanation\<close>. The list handed to \<open>store_interaction\<close> as \<open>fixes\<close> is kept
  as it is at that moment.
\<close>

datatype loop_exit = Return retval | Raise exn | Break | Next

record loop_state =
  attempt :: nat
  attempt_history :: "attempt_record list"
  cur_code :: string
  cur_explanation :: "string option"

definition remember_fix :: "string \<Rightarrow> string \<Rightarrow> exec_result \<Rightarrow> loop_state \<Rightarrow> agent \<Rightarrow> agent" where
  \<comment> \<open>the \<open>store_interaction\<close> call that ends a pass\<close>
  "remember_fix original_query fix_response result ls a =
     a\<lparr>memory := store_interaction original_query fix_response (Some (cur_code ls))
                    (Some (output_text result)) (Some (attempt_history ls)) None (memory a)\<rparr>"

definition on_parse_error ::
  "string \<Rightarrow> string \<Rightarrow> exec_result \<Rightarrow> loop_state \<Rightarrow> exn \<Rightarrow> agent \<Rightarrow>
     loop_exit \<times> loop_state \<times> agent" where
  \<comment> \<open>the inner \<open>except Exception\<close>\<close>
  "on_parse_error original_query fix_response result ls e a =
     (if is_exception e
      then (case read_input (stdin a) of
              (Inl e', ins) \<Rightarrow> (Raise e', ls, a\<lparr>stdin := ins\<rparr>)
            | (Inr user_input, ins) \<Rightarrow>
                if str_lower user_input \<noteq> ''yes'' then (Break, ls, a\<lparr>stdin := ins\<rparr>)
                else (Next, ls, remember_fix original_query fix_response result ls
                                  (a\<lparr>stdin := ins\<rparr>)))
      else (Raise e, ls, a))"

definition no_code_found ::
  "(agent \<Rightarrow> outcome option) \<Rightarrow> string \<Rightarrow> string \<Rightarrow> exec_result \<Rightarrow> loop_state \<Rightarrow> agent \<Rightarrow>
     (loop_exit \<times> loop_state \<times> agent) option" where
  \<comment> \<open>the three choices offered when the answer holds no code; \<open>restart\<close> is
      \<open>self.process_query(original_query)\<close>\<close>
  "no_code_found restart original_query fix_response result ls a =
     (case read_input (stdin a) of
        (Inl e, ins) \<Rightarrow>
          Some (on_parse_error original_query fix_response result ls e (a\<lparr>stdin := ins\<rparr>))
      | (Inr choice, ins) \<Rightarrow>
          (let a1 = a\<lparr>stdin := ins\<rparr>
           in if choice = ''2''
              then (case restart a1 of
                      None \<Rightarrow> None
                    | Some (Inr r, a2) \<Rightarrow> Some (Return r, ls, a2)
                    | Some (Inl e, a2) \<Rightarrow>
                        Some (on_parse_error original_query fix_response result ls e a2))
              else if choice = ''3''
              then Some (Return (Str ''Code execution cancelled by user''), ls, a1)
              else Some (Next, ls, remember_fix original_query fix_response result ls a1)))"

definition repair ::
  "env \<Rightarrow> (agent \<Rightarrow> outcome option) \<Rightarrow> string \<Rightarrow> exec_result \<Rightarrow> loop_state \<Rightarrow> agent \<Rightarrow>
     (loop_exit \<times> loop_state \<times> agent) option" where
  \<comment> \<open>after a failed execution: ask the oracle for a fix and read the answer\<close>
  "repair env restart original_query result ls a =
     (case data_context (current_data a) of
        Some e \<Rightarrow> Some (Raise e, ls, a)
      | None \<Rightarrow>
          (case invoke env a of
             (Inl e, a1) \<Rightarrow> Some (Raise e, ls, a1)
           | (Inr new_code, a1) \<Rightarrow>
               (let start = str_find new_code fence_open 0;
                    end = str_find new_code fence_close (nat (start + 10))
                in if start \<ge> 0 \<and> end > start + 10
                   then Some (Next,
                          ls\<lparr>cur_code := str_strip (slice new_code (start + 10) end),
                             cur_explanation :=
                               (if contains (slice_from new_code end) ''EXPLANATION:''
                                then Some (str_strip (after_first ''EXPLANATION:''
                                                        (slice_from new_code end)))
                                else cur_explanation ls)\<rparr>, a1)
                   else no_code_found restart original_query new_code result ls a1)))"

definition loop_body ::
  "env \<Rightarrow> (agent \<Rightarrow> outcome option) \<Rightarrow> string \<Rightarrow> loop_state \<Rightarrow> agent \<Rightarrow>
     (loop_exit \<times> loop_state \<times> agent) option" where
  "loop_body env restart original_query ls0 a =
     (let ls = ls0\<lparr>attempt := attempt ls0 + 1\<rparr>
      in case read_input (stdin a) of
           (Inl e, ins) \<Rightarrow> Some (Raise e, ls, a\<lparr>stdin := ins\<rparr>)
         | (Inr l, ins) \<Rightarrow>
             (let user_input = str_lower l; a1 = a\<lparr>stdin := ins\<rparr>
              in if user_input = ''quit''
                 then Some (Return (Str ''Code execution cancelled by user''), ls, a1)
                 else if user_input \<noteq> ''yes'' then Some (Next, ls, a1)
                 else (case execute_code env (cur_code ls) (current_data a1) (stdin a1) of
                         (Inl e, df', ins') \<Rightarrow>
                           Some (Raise e, ls, a1\<lparr>current_data := df', stdin := ins'\<rparr>)
                       | (Inr result, df', ins') \<Rightarrow>
                           (let a2 = a1\<lparr>current_data := df', stdin := ins',
                                        last_code := Some (cur_code ls),
                                        last_error :=
                                          Some (if \<not> success result then output_text result
                                                else show_results env (results result)),
                                        last_result := Some (format_code_output env result)\<rparr>
                            in if success result
                               then Some (Return (Str (format_code_output env result)), ls, a2)
                               else repair env restart original_query result
                                      (ls\<lparr>attempt_history := attempt_history ls @
                                            [\<lparr>a_attempt = attempt ls,
                                              a_code = cur_code ls,
                                              a_error = output_text result,
                                              a_debug_info = debug_info result,
                                              a_error_context = error_context result\<rparr>]\<rparr>)
                                      a2))))"

partial_function (option) repair_loop ::
  "env \<Rightarrow> (agent \<Rightarrow> outcome option) \<Rightarrow> string \<Rightarrow> loop_state \<Rightarrow> agent \<Rightarrow>
     (loop_exit \<times> loop_state \<times> agent) option" where
  "repair_loop env restart original_query ls a =
     Option.bind (loop_body env restart original_query ls a)
       (\<lambda>(ex, ls', a').
          if ex = Next then repair_loop env restart original_query ls' a'
          else Some (ex, ls', a'))"

declare repair_loop.simps [code]

subsection \<open>Actions\<close>

definition run_explanation :: "env \<Rightarrow> string option \<Rightarrow> agent \<Rightarrow> outcome" where
  \<comment> \<open>\<open>CODE_EXECUTION\<close> runs the explanation as code; \<open>execute_code(None)\<close> fails on
      its first test\<close>
  "run_explanation env expl a =
     (case expl of
        None \<Rightarrow> (Inl (Exn ExceptionClass ''TypeError''
                         ''argument of type 'NoneType' is not iterable''), a)
      | Some c \<Rightarrow>
          (case execute_code env c (current_data a) (stdin a) of
             (Inl e, df', ins') \<Rightarrow> (Inl e, a\<lparr>current_data := df', stdin := ins'\<rparr>)
           | (Inr result, df', ins') \<Rightarrow>
               (Inr (Str (format_code_output env result)),
                a\<lparr>current_data := df', stdin := ins'\<rparr>)))"

definition dispatch :: "env \<Rightarrow> string \<Rightarrow> string option \<Rightarrow> string \<Rightarrow> agent \<Rightarrow> outcome" where
  \<comment> \<open>the chain \<open>if action == "FORECAST" ... elif ... else\<close>\<close>
  "dispatch env act expl original_query a =
     (if act = ''FORECAST''
      then (if current_data a = None
            then (Inr (Str ''Please analyze a dataset first using the 'analyze' command.''), a)
            else (case generate_forecast env (current_data a)
                         (target_column (current_context a))
                         (series_id_column (current_context a)) of
                    Inl e \<Rightarrow> (Inl e, a)
                  | Inr s \<Rightarrow> (Inr (Str s), a)))
      else if act = ''DATA_ANALYSIS''
      then (case process_dataset env (csv_path (current_context a))
                   (target_column (current_context a))
                   (series_id_column (current_context a)) a of
              (Inl e, a') \<Rightarrow> (Inl e, a')
            | (Inr an, a') \<Rightarrow> (Inr (AnalysisResult an), a'))
      else if act = ''CODE_EXECUTION''
      then (if current_data a = None
            then (Inr (Str ''Please analyze a dataset first using the 'analyze' command.''), a)
            else (case read_input (stdin a) of
                    (Inl e, ins) \<Rightarrow> (Inl e, a\<lparr>stdin := ins\<rparr>)
                  | (Inr user_input, ins) \<Rightarrow>
                      if str_lower user_input = ''yes''
                      then run_explanation env expl (a\<lparr>stdin := ins\<rparr>)
                      else (Inr (Str ''Code execution cancelled.''), a\<lparr>stdin := ins\<rparr>)))
      else (case invoke env a of
              (Inl e, a') \<Rightarrow> (Inl e, a')
            | (Inr s, a') \<Rightarrow> (Inr (Str s), a')))"

subsection \<open>Planning and the turn handler\<close>

text \<open>
  \<open>_plan_and_execute\<close> and \<open>process_query\<close> call each other and themselves. The
  functions below take the callee as an argument; the recursion is closed further down,
  over the number of nested calls the interpreter still allows, past which a call
  raises \<open>RecursionError\<close>. The repair loop may run without end, so a result is
  optional: \<open>None\<close> stands for a turn that never returns.
\<close>

definition recursion_error :: exn where
  "recursion_error = Exn ExceptionClass ''RecursionError'' ''maximum recursion depth exceeded''"

definition plan_try ::
  "env \<Rightarrow> (string \<Rightarrow> string \<Rightarrow> agent \<Rightarrow> outcome option) \<Rightarrow> (agent \<Rightarrow> outcome option) \<Rightarrow>
     string \<Rightarrow> string \<Rightarrow> agent \<Rightarrow> outcome option" where
  \<comment> \<open>the body of the \<open>try\<close> of \<open>_plan_and_execute\<close>\<close>
  "plan_try env self restart response_text original_query a =
     (if startswith (str_lower original_query) ''fix''
      then (case data_context (current_data a) of
              Some e \<Rightarrow> Some (Inl e, a)
            | None \<Rightarrow>
                (case invoke env a of
                   (Inl e, a1) \<Rightarrow> Some (Inl e, a1)
                 | (Inr fix_response, a1) \<Rightarrow> self fix_response original_query a1))
      else (let p = parse_response response_text
            in case action p of
                 None \<Rightarrow> Some (Inr (Str ''Couldn't determine appropriate action''), a)
               | Some act \<Rightarrow>
                   if act = []
                   then Some (Inr (Str ''Couldn't determine appropriate action''), a)
                   else if act = ''CODE_GENERATION''
                   then (case code p of
                           None \<Rightarrow> Some (Inr (Str ''No code was generated''), a)
                         | Some c \<Rightarrow>
                             if c = [] then Some (Inr (Str ''No code was generated''), a)
                             else Option.bind
                                    (repair_loop env restart original_query
                                       \<lparr>attempt = 0, attempt_history = [],
                                        cur_code = c, cur_explanation = explanation p\<rparr> a)
                                    (\<lambda>(ex, ls, a').
                                       case ex of
                                         Return r \<Rightarrow> Some (Inr r, a')
                                       | Raise e \<Rightarrow> Some (Inl e, a')
                                       | _ \<Rightarrow> Some (dispatch env act (cur_explanation ls)
                                                      original_query a')))
                   else Some (dispatch env act (explanation p) original_query a)))"

definition except_action :: "outcome option \<Rightarrow> outcome option" where
  \<comment> \<open>\<open>except Exception as e: return f"Error executing action: {str(e)}"\<close>\<close>
  "except_action r =
     (case r of
        None \<Rightarrow> None
      | Some (Inl e, a) \<Rightarrow>
          if is_exception e then Some (Inr (Str (''Error executing action: '' @ msg e)), a)
          else Some (Inl e, a)
      | Some (Inr v, a) \<Rightarrow> Some (Inr v, a))"

definition except_query :: "outcome option \<Rightarrow> outcome option" where
  \<comment> \<open>\<open>except Exception as e: return f"Error processing query: {str(e)}"\<close>\<close>
  "except_query r =
     (case r of
        None \<Rightarrow> None
      | Some (Inl e, a) \<Rightarrow>
          if is_exception e then Some (Inr (Str (''Error processing query: '' @ msg e)), a)
          else Some (Inl e, a)
      | Some (Inr v, a) \<Rightarrow> Some (Inr v, a))"

definition process_query_with ::
  "env \<Rightarrow> (string \<Rightarrow> string \<Rightarrow> agent \<Rightarrow> outcome option) \<Rightarrow> string \<Rightarrow> agent \<Rightarrow> outcome option" where
  \<comment> \<open>\<open>process_query\<close>, given \<open>_plan_and_execute\<close>\<close>
  "process_query_with env plan query a =
     (if startswith (str_lower query) ''fix''
      then (if \<not> truthy (last_code a) \<or> \<not> truthy (last_result a)
            then Some (Inr (Str ''No previous code execution to fix. Please run a command first.''), a)
            else (let fix_instructions = str_strip (drop 3 query)
                  in if fix_instructions = []
                     then Some (Inr (Str (''Please provide instructions for the fix, e.g., ''
                                          @ quote ''fix write results to csv'')), a)
                     else (case invoke env a of
                             (Inl e, a1) \<Rightarrow> Some (Inl e, a1)
                           | (Inr response, a1) \<Rightarrow> plan response query a1)))
      else if \<not> llm a then Some (Inr (Str ''Error: LLM not initialized''), a)
      else except_query
             (case invoke env a of
                (Inl e, a1) \<Rightarrow> Some (Inl e, a1)
              | (Inr response, a1) \<Rightarrow>
                  plan response query
                    (a1\<lparr>memory := store_interaction query response None None None None
                                     (memory a1)\<rparr>)))"

primrec plan_and_execute ::
  "env \<Rightarrow> nat \<Rightarrow> string \<Rightarrow> string \<Rightarrow> agent \<Rightarrow> outcome option" where
  "plan_and_execute env 0 llm_response original_query a =
     except_action
       (plan_try env (\<lambda>r q a'. Some (Inl recursion_error, a'))
          (\<lambda>a'. Some (Inl recursion_error, a')) llm_response original_query a)"
| "plan_and_execute env (Suc depth) llm_response original_query a =
     except_action
       (plan_try env (plan_and_execute env depth)
          (process_query_with env (plan_and_execute env depth) original_query)
          llm_response original_query a)"

definition process_query :: "env \<Rightarrow> nat \<Rightarrow> string \<Rightarrow> agent \<Rightarrow> outcome option" where
  "process_query env depth query a = process_query_with env (plan_and_execute env depth) query a"

section \<open>Notions for stating the properties\<close>

subsection \<open>Fences, in the words of the specification\<close>

text \<open>
  To say which text lies between the fences without recourse to \<open>find\<close>: a text
  occurs at a position; it occurs first from a position on; it does not occur from a
  position on.
\<close>

definition occurs_at :: "string \<Rightarrow> string \<Rightarrow> nat \<Rightarrow> bool" where
  "occurs_at s sub i = (i \<le> length s \<and> take (length sub) (drop i s) = sub)"

definition first_from :: "string \<Rightarrow> string \<Rightarrow> nat \<Rightarrow> nat \<Rightarrow> bool" where
  "first_from s sub k i =
     (k \<le> i \<and> occurs_at s sub i \<and> (\<forall>j \<in> set [k..<i]. \<not> occurs_at s sub j))"

definition none_from :: "string \<Rightarrow> string \<Rightarrow> nat \<Rightarrow> bool" where
  "none_from s sub k = (\<forall>j \<in> set [k..<Suc (length s)]. \<not> occurs_at s sub j)"

subsection \<open>Repeated calls\<close>

text \<open>
  Two calls of \<open>execute_code\<close> in a row on the same frame object: the second call
  meets the frame and the input as the first call left them.
\<close>

definition failure_bundle :: "exn + exec_result \<Rightarrow> data_info option" where
  \<comment> \<open>the diagnostic bundle of a failure result, if it has one\<close>
  "failure_bundle r =
     (case r of
        Inl e \<Rightarrow> None
      | Inr x \<Rightarrow> (case error_context x of
                    None \<Rightarrow> None
                  | Some ec \<Rightarrow> data_info (ec_debug_info ec)))"

definition execute_twice ::
  "env \<Rightarrow> string \<Rightarrow> frame option \<Rightarrow> input_event list \<Rightarrow>
     (exn + exec_result) \<times> (exn + exec_result)" where
  "execute_twice env code_snippet df ins =
     (case execute_code env code_snippet df ins of
        (r1, df1, ins1) \<Rightarrow>
          (case execute_code env code_snippet df1 ins1 of
             (r2, df2, ins2) \<Rightarrow> (r1, r2)))"

subsection \<open>Functions that return and use up input only\<close>

definition steady :: "(agent \<Rightarrow> outcome option) \<Rightarrow> bool" where
  \<comment> \<open>the function returns on every agent state, with no more input pending than before\<close>
  "steady f = (\<forall>a. \<exists>r a'. f a = Some (r, a') \<and> length (stdin a') \<le> length (stdin a))"

section \<open>A concrete world for the examples\<close>

text \<open>
  An interpreter that knows a handful of texts, a date conversion that rejects the
  cell \<open>not a date\<close> and otherwise yields the dtype \<open>datetime64[ns]\<close>, and an
  environment where every import resolves. One of the texts is the snippet
  \<open>df.shape  # import plotly\<close> behind the prefix that \<open>execute_code\<close> puts before
  it: its \<open>import warnings\<close> binds the name \<open>warnings\<close> in the namespace.
\<close>

definition demo_exec :: "string \<Rightarrow> namespace \<Rightarrow> frame option \<Rightarrow> exec_outcome" where
  "demo_exec code_snippet ns df =
     (if code_snippet = ''raise SystemExit''
      then \<lparr>raised = Some (Exn BaseExceptionClass ''SystemExit'' []),
            locals_after = ns, printed = [], frame_after = df\<rparr>
      else if code_snippet = ''raise ValueError('bad')''
      then \<lparr>raised = Some (Exn ExceptionClass ''ValueError'' ''bad''),
            locals_after = ns, printed = [], frame_after = df\<rparr>
      else if code_snippet = ''total = 6''
      then \<lparr>raised = None, locals_after = ns @ [(''total'', Object ''6'')],
            printed = [], frame_after = df\<rparr>
      else if code_snippet =
                ''import warnings\<newline>warnings.filterwarnings('ignore', 'Importing plotly failed')\<newline>''
                @ ''df.shape  # import plotly''
      then \<lparr>raised = None, locals_after = ns @ [(''warnings'', Object ''<module warnings>'')],
            printed = [], frame_after = df\<rparr>
      else \<lparr>raised = None, locals_after = ns, printed = [], frame_after = df\<rparr>)"

definition demo_to_datetime :: "column \<Rightarrow> exn + column" where
  "demo_to_datetime c =
     (if Some ''not a date'' \<in> set (cells c)
      then Inl (Exn ExceptionClass ''ValueError'' ''Unknown datetime string format'')
      else Inr (c\<lparr>dtype := ''datetime64[ns]''\<rparr>))"

definition demo_env :: "(nat \<Rightarrow> exn + string) \<Rightarrow> env" where
  "demo_env oracle =
     \<lparr>extract_imports = (\<lambda>c. if startswith c ''import warnings'' then [''warnings''] else []),
      is_stdlib = (\<lambda>m. True),
      import_module = (\<lambda>m. None),
      install_package = (\<lambda>p. True),
      import_installed = (\<lambda>p. None),
      to_datetime = demo_to_datetime,
      exec_snippet = demo_exec,
      format_exc = (\<lambda>e. ''Traceback (most recent call last)''),
      tabulate_head = (\<lambda>f. show_labels (map cname (cols f))),
      repr_value = (\<lambda>v. case v of DataFrame f \<Rightarrow> ''DataFrame'' | Object s \<Rightarrow> s),
      llm_invoke = oracle,
      read_csv = (\<lambda>p. Inl (Exn ExceptionClass ''FileNotFoundError'' p)),
      descriptive_analysis = (\<lambda>f t s. Inr ''analysis''),
      prophet_forecast = (\<lambda>f t s. Inr ''forecast'')\<rparr>"

definition silent_oracle :: "nat \<Rightarrow> exn + string" where
  "silent_oracle n = Inr []"

definition failing_oracle :: "nat \<Rightarrow> exn + string" where
  "failing_oracle n = Inl (Exn ExceptionClass ''ConnectionError'' ''connection refused'')"

definition demo_frame :: frame where
  "demo_frame =
     \<lparr>nrows = 2,
      cols = [\<lparr>cname = ''date'', dtype = ''object'',
               cells = [Some ''2024-01-01'', Some ''2024-01-02'']\<rparr>,
              \<lparr>cname = ''value'', dtype = ''int64'', cells = [Some ''1'', None]\<rparr>]\<rparr>"

definition bad_date_frame :: frame where
  "bad_date_frame =
     \<lparr>nrows = 1,
      cols = [\<lparr>cname = ''date'', dtype = ''object'', cells = [Some ''not a date'']\<rparr>]\<rparr>"

definition new_agent :: "input_event list \<Rightarrow> agent" where
  \<comment> \<open>the agent after \<open>__init__\<close> and \<open>initialize\<close>\<close>
  "new_agent ins =
     \<lparr>memory = \<lparr>short_term_memory = [], long_term_memory = [],
                conversation_history = [], last_execution = None\<rparr>,
      llm = True,
      current_data = None,
      current_context = \<lparr>csv_path = None, target_column = None,
                         series_id_column = None, data_info_text = None\<rparr>,
      last_code = None, last_error = None, last_result = None,
      llm_calls = 0,
      stdin = ins\<rparr>"

definition agent_with_history :: agent where
  \<comment> \<open>an agent that has run a snippet before\<close>
  "agent_with_history =
     (new_agent [])\<lparr>last_code := Some ''total = 6'',
                    last_error := Some ''{'total': 6}'',
                    last_result := Some ''=== Code Execution Results ===''\<rparr>"

definition first_pass :: loop_state where
  \<comment> \<open>the loop variables on entry, with a snippet that runs\<close>
  "first_pass = \<lparr>attempt = 0, attempt_history = [], cur_code = ''total = 6'',
                  cur_explanation = None\<rparr>"

definition no_restart :: "agent \<Rightarrow> outcome option" where
  "no_restart a = Some (Inl recursion_error, a)"

definition fenced_response :: string where
  "fenced_response =
     ''ACTION: CODE_GENERATION\<newline>CODE:\<newline>```python\<newline>total = 6\<newline>```\<newline>EXPLANATION: sums''"

definition unclosed_response :: string where
  "unclosed_response = ''ACTION: CODE_GENERATION\<newline>CODE:\<newline>```python\<newline>total = 6\<newline>''"

definition empty_block_response :: string where
  "empty_block_response = ''ACTION: CODE_GENERATION\<newline>CODE:\<newline>```python\<newline>```''"

section \<open>Every turn returns\<close>

text \<open>
  The repair loop has no bound of its own, but every pass reads a line of input before
  it can go on, and the input is finite: the loop, \<open>_plan_and_execute\<close> and
  \<open>process_query\<close> always come to a result, an answer or an exception. So no
  statement below about what a turn returns is about a turn that runs for ever.
\<close>

lemma read_input_length: "read_input ins = (r, ins') \<Longrightarrow> length ins' \<le> length ins"
  by (induction ins rule: read_input.induct) auto

lemma read_input_line: "read_input ins = (Inr l, ins') \<Longrightarrow> length ins' < length ins"
  by (induction ins rule: read_input.induct) auto

lemma check_length:
  "check_and_install_dependencies env c ins = (r, ins') \<Longrightarrow> length ins' \<le> length ins"
  by (auto simp: check_and_install_dependencies_def
           split: sum.splits if_splits prod.splits dest: read_input_length)

lemma execute_code_length:
  "execute_code env c df ins = (r, df', ins') \<Longrightarrow> length ins' \<le> length ins"
  by (auto simp: execute_code_def Let_def
           split: sum.splits bool.splits prod.splits dest: check_length)

lemma invoke_stdin: "invoke env a = (r, a') \<Longrightarrow> stdin a' = stdin a"
  by (auto simp: invoke_def split: if_splits)

lemma remember_fix_stdin: "stdin (remember_fix q fr r ls a) = stdin a"
  by (simp add: remember_fix_def)

lemma on_parse_error_length:
  "on_parse_error q fr r ls e a = (ex, ls', a') \<Longrightarrow> length (stdin a') \<le> length (stdin a)"
  by (auto simp: on_parse_error_def remember_fix_stdin
           split: if_splits prod.splits sum.splits dest: read_input_length)

lemma no_code_found_total:
  assumes "steady restart"
  shows "\<exists>ex ls' a'. no_code_found restart q fr r ls a = Some (ex, ls', a')
           \<and> length (stdin a') \<le> length (stdin a)"
proof (cases "read_input (stdin a)")
  case (Pair res ins)
  then have le: "length ins \<le> length (stdin a)" by (rule read_input_length)
  show ?thesis
  proof (cases res)
    case (Inl e)
    obtain ex ls' a' where o: "on_parse_error q fr r ls e (a\<lparr>stdin := ins\<rparr>) = (ex, ls', a')"
      by (cases "on_parse_error q fr r ls e (a\<lparr>stdin := ins\<rparr>)")
    from on_parse_error_length [OF o] le Pair Inl o show ?thesis
      by (simp add: no_code_found_def)
  next
    case (Inr choice)
    show ?thesis
    proof (cases "choice = ''2''")
      case True
      from assms [unfolded steady_def, rule_format, of "a\<lparr>stdin := ins\<rparr>"]
      obtain x a2 where rs: "restart (a\<lparr>stdin := ins\<rparr>) = Some (x, a2)"
        and l2: "length (stdin a2) \<le> length ins"
        by auto
      show ?thesis
      proof (cases x)
        case (Inl e)
        obtain ex ls' a' where o: "on_parse_error q fr r ls e a2 = (ex, ls', a')"
          by (cases "on_parse_error q fr r ls e a2")
        from on_parse_error_length [OF o] le l2 Pair \<open>res = Inr choice\<close> True rs Inl o show ?thesis
          by (simp add: no_code_found_def Let_def)
      next
        case (Inr v)
        with le l2 Pair \<open>res = Inr choice\<close> True rs show ?thesis
          by (simp add: no_code_found_def Let_def)
      qed
    next
      case False
      with le Pair Inr show ?thesis
        by (simp add: no_code_found_def Let_def remember_fix_stdin)
    qed
  qed
qed


lemma repair_total:
  assumes "steady restart"
  shows "\<exists>ex ls' a'. repair env restart q r ls a = Some (ex, ls', a')
           \<and> length (stdin a') \<le> length (stdin a)"
proof (cases "data_context (current_data a)")
  case (Some e)
  then show ?thesis by (simp add: repair_def)
next
  case None
  obtain x a1 where inv: "invoke env a = (x, a1)" by (cases "invoke env a")
  then have st: "stdin a1 = stdin a" by (rule invoke_stdin)
  show ?thesis
  proof (cases x)
    case (Inl e)
    with None inv st show ?thesis by (simp add: repair_def)
  next
    case (Inr new_code)
    from no_code_found_total [OF assms, of q new_code r ls a1] st
    obtain ex ls' a' where "no_code_found restart q new_code r ls a1 = Some (ex, ls', a')"
      and "length (stdin a') \<le> length (stdin a)"
      by auto
    with None inv Inr st show ?thesis
      by (simp add: repair_def Let_def)
  qed
qed

lemma loop_body_total:
  assumes "steady restart"
  shows "\<exists>ex ls' a'. loop_body env restart q ls a = Some (ex, ls', a')
           \<and> length (stdin a') \<le> length (stdin a)
           \<and> (ex = Next \<longrightarrow> length (stdin a') < length (stdin a))"
proof (cases "read_input (stdin a)")
  case (Pair res ins)
  then have le: "length ins \<le> length (stdin a)" by (rule read_input_length)
  show ?thesis
  proof (cases res)
    case (Inl e)
    with Pair le show ?thesis by (simp add: loop_body_def Let_def)
  next
    case (Inr l)
    with Pair have lt: "length ins < length (stdin a)" using read_input_line by blast
    show ?thesis
    proof (cases "str_lower l = ''yes''")
      case False
      with Pair Inr lt show ?thesis by (simp add: loop_body_def Let_def)
    next
      case True
      obtain x df' ins' where run: "execute_code env (cur_code ls) (current_data a) ins = (x, df', ins')"
        by (cases "execute_code env (cur_code ls) (current_data a) ins")
      then have le2: "length ins' \<le> length ins" by (rule execute_code_length)
      show ?thesis
      proof (cases x)
        case (Inl e)
        with Pair \<open>res = Inr l\<close> True run lt le2 show ?thesis
          by (simp add: loop_body_def Let_def)
      next
        case (Inr result)
        show ?thesis
        proof (cases "success result")
          case True
          with Pair \<open>res = Inr l\<close> \<open>str_lower l = ''yes''\<close> run Inr lt le2 show ?thesis
            by (simp add: loop_body_def Let_def)
        next
          case False
          let ?ls2 = "ls\<lparr>attempt := attempt ls + 1,
                        attempt_history := attempt_history ls @
                          [\<lparr>a_attempt = attempt ls + 1, a_code = cur_code ls,
                            a_error = output_text result, a_debug_info = debug_info result,
                            a_error_context = error_context result\<rparr>]\<rparr>"
          let ?a2 = "a\<lparr>current_data := df', stdin := ins', last_code := Some (cur_code ls),
                      last_error := Some (output_text result),
                      last_result := Some (format_code_output env result)\<rparr>"
          from repair_total [OF assms, of env q result ?ls2 ?a2]
          obtain ex ls' a' where rp: "repair env restart q result ?ls2 ?a2 = Some (ex, ls', a')"
            and l3: "length (stdin a') \<le> length ins'"
            by auto
          from Pair \<open>res = Inr l\<close> \<open>str_lower l = ''yes''\<close> run Inr False
          have "loop_body env restart q ls a = repair env restart q result ?ls2 ?a2"
            by (simp add: loop_body_def Let_def)
          with rp l3 le2 lt show ?thesis by simp
        qed
      qed
    qed
  qed
qed

lemma repair_loop_total:
  assumes "steady restart"
  shows "\<exists>ex ls' a'. repair_loop env restart q ls a = Some (ex, ls', a')
           \<and> length (stdin a') \<le> length (stdin a)"
proof (induction "length (stdin a)" arbitrary: ls a rule: less_induct)
  case less
  from loop_body_total [OF assms, of env q ls a]
  obtain ex ls1 a1 where body: "loop_body env restart q ls a = Some (ex, ls1, a1)"
    and le: "length (stdin a1) \<le> length (stdin a)"
    and lt: "ex = Next \<longrightarrow> length (stdin a1) < length (stdin a)"
    by blast
  show ?case
  proof (cases "ex = Next")
    case True
    with lt have "length (stdin a1) < length (stdin a)" by simp
    from less [OF this, of ls1] obtain ex' ls' a'
      where "repair_loop env restart q ls1 a1 = Some (ex', ls', a')"
        and "length (stdin a') \<le> length (stdin a1)"
      by blast
    with body True le show ?thesis
      by (subst repair_loop.simps) simp
  next
    case False
    with body le show ?thesis
      by (subst repair_loop.simps) simp
  qed
qed


lemma process_dataset_stdin: "process_dataset env p t s a = (r, a') \<Longrightarrow> stdin a' = stdin a"
  by (auto simp: process_dataset_def Let_def split: sum.splits)

lemma run_explanation_length:
  "run_explanation env expl a = (r, a') \<Longrightarrow> length (stdin a') \<le> length (stdin a)"
  by (auto simp: run_explanation_def split: option.splits prod.splits sum.splits
           dest: execute_code_length)

lemma dispatch_length:
  assumes "dispatch env act expl q a = (r, a')"
  shows "length (stdin a') \<le> length (stdin a)"
  using assms
  by (auto simp: dispatch_def
           split: if_splits sum.splits prod.splits
           dest: process_dataset_stdin invoke_stdin
           dest!: read_input_length run_explanation_length)

lemma steadyD:
  assumes "steady f"
  obtains r a' where "f a = Some (r, a')" and "length (stdin a') \<le> length (stdin a)"
  using assms unfolding steady_def by blast

lemma except_action_steady:
  assumes "f a = Some (r, a')" and "length (stdin a') \<le> n"
  shows "\<exists>r' a''. except_action (f a) = Some (r', a'') \<and> length (stdin a'') \<le> n"
  using assms by (cases r) (auto simp: except_action_def)

lemma except_query_steady:
  assumes "x = Some (r, a')" and "length (stdin a') \<le> n"
  shows "\<exists>r' a''. except_query x = Some (r', a'') \<and> length (stdin a'') \<le> n"
  using assms by (cases r) (auto simp: except_query_def)

lemma plan_try_total:
  assumes self: "\<And>r q. steady (self r q)" and restart: "steady restart"
  shows "\<exists>r a'. plan_try env self restart t q a = Some (r, a')
           \<and> length (stdin a') \<le> length (stdin a)"
proof (cases "startswith (str_lower q) ''fix''")
  case True
  show ?thesis
  proof (cases "data_context (current_data a)")
    case (Some e)
    with True show ?thesis by (simp add: plan_try_def)
  next
    case None
    obtain x a1 where inv: "invoke env a = (x, a1)" by (cases "invoke env a")
    then have st: "stdin a1 = stdin a" by (rule invoke_stdin)
    show ?thesis
    proof (cases x)
      case (Inl e)
      with True None inv st show ?thesis by (simp add: plan_try_def)
    next
      case (Inr fix_response)
      from steadyD [OF self [of fix_response q], of a1] st
      obtain r a' where "self fix_response q a1 = Some (r, a')"
        and "length (stdin a') \<le> length (stdin a)"
        by metis
      with True None inv Inr show ?thesis by (simp add: plan_try_def)
    qed
  qed
next
  case notfix: False
  let ?p = "parse_response t"
  show ?thesis
  proof (cases "action ?p")
    case None
    with notfix show ?thesis by (simp add: plan_try_def Let_def)
  next
    case (Some act)
    have disp: "\<And>expl b. \<exists>r a'. dispatch env act expl q b = (r, a')
                  \<and> length (stdin a') \<le> length (stdin b)"
      using dispatch_length by (metis surj_pair)
    show ?thesis
    proof (cases "act = [] \<or> act \<noteq> ''CODE_GENERATION''")
      case True
      with notfix Some disp [of "explanation ?p" a] show ?thesis
        by (auto simp: plan_try_def Let_def)
    next
      case False
      then have gen: "act = ''CODE_GENERATION''" by simp
      show ?thesis
      proof (cases "code ?p")
        case None
        with notfix \<open>action ?p = Some act\<close> gen show ?thesis by (simp add: plan_try_def Let_def)
      next
        case (Some c)
        show ?thesis
        proof (cases "c = []")
          case True
          with notfix \<open>action ?p = Some act\<close> gen Some show ?thesis
            by (simp add: plan_try_def Let_def)
        next
          case nonempty: False
          let ?ls = "\<lparr>attempt = 0, attempt_history = [], cur_code = c,
                      cur_explanation = explanation ?p\<rparr>"
          from repair_loop_total [OF restart, of env q ?ls a]
          obtain ex ls' a1 where loop: "repair_loop env restart q ?ls a = Some (ex, ls', a1)"
            and le: "length (stdin a1) \<le> length (stdin a)"
            by blast
          from disp [of "cur_explanation ls'" a1] le
          obtain r2 a2 where d: "dispatch env act (cur_explanation ls') q a1 = (r2, a2)"
            and le2: "length (stdin a2) \<le> length (stdin a)"
            by force
          from notfix \<open>action ?p = Some act\<close> gen Some nonempty loop
          have "plan_try env self restart t q a =
                  (case ex of Return r \<Rightarrow> Some (Inr r, a1) | Raise e \<Rightarrow> Some (Inl e, a1)
                   | _ \<Rightarrow> Some (dispatch env act (cur_explanation ls') q a1))"
            by (cases ex) (simp_all add: plan_try_def Let_def)
          with le d le2 show ?thesis
            by (cases ex) auto
        qed
      qed
    qed
  qed
qed

lemma process_query_with_steady:
  assumes plan: "\<And>r q. steady (plan r q)"
  shows "steady (process_query_with env plan query)"
  unfolding steady_def
proof (intro allI)
  fix a
  show "\<exists>r a'. process_query_with env plan query a = Some (r, a')
          \<and> length (stdin a') \<le> length (stdin a)"
  proof (cases "invoke env a")
    case (Pair x a1)
    then have st: "stdin a1 = stdin a" by (rule invoke_stdin)
    show ?thesis
    proof (cases x)
      case (Inl e)
      with Pair st show ?thesis
        by (auto simp: process_query_with_def Let_def except_query_def)
    next
      case (Inr response)
      let ?a2 = "a1\<lparr>memory := store_interaction query response None None None None (memory a1)\<rparr>"
      from steadyD [OF plan [of response query], of a1] st
      obtain r1 b1 where p1: "plan response query a1 = Some (r1, b1)"
        and l1: "length (stdin b1) \<le> length (stdin a)" by metis
      have st2: "stdin ?a2 = stdin a" using st by simp
      from steadyD [OF plan [of response query], of ?a2]
      obtain r2 b2 where p2: "plan response query ?a2 = Some (r2, b2)"
        and "length (stdin b2) \<le> length (stdin ?a2)" by blast
      then have l2: "length (stdin b2) \<le> length (stdin a)" using st2 by simp
      from except_query_steady [OF p2 l2] Pair Inr p1 l1 show ?thesis
        by (auto simp: process_query_with_def Let_def)
    qed
  qed
qed

lemma plan_and_execute_steady: "steady (plan_and_execute env depth r q)"
proof (induction depth arbitrary: r q)
  case 0
  have s1: "\<And>r q. steady ((\<lambda>r q a'. Some (Inl recursion_error, a')) r q)"
    by (simp add: steady_def)
  have s2: "steady (\<lambda>a'. Some (Inl recursion_error, a'))"
    by (simp add: steady_def)
  show ?case
    unfolding steady_def
  proof (intro allI)
    fix a
    from plan_try_total [of "\<lambda>r q a'. Some (Inl recursion_error, a')"
                            "\<lambda>a'. Some (Inl recursion_error, a')" env r q a, OF s1 s2]
    obtain x a' where "plan_try env (\<lambda>r q a'. Some (Inl recursion_error, a'))
                         (\<lambda>a'. Some (Inl recursion_error, a')) r q a = Some (x, a')"
      and "length (stdin a') \<le> length (stdin a)" by blast
    then show "\<exists>x a'. plan_and_execute env 0 r q a = Some (x, a')
                 \<and> length (stdin a') \<le> length (stdin a)"
      by (cases x) (auto simp: except_action_def)
  qed
next
  case (Suc depth)
  have s2: "steady (process_query_with env (plan_and_execute env depth) q)"
    using Suc by (rule process_query_with_steady)
  show ?case
    unfolding steady_def
  proof (intro allI)
    fix a
    from plan_try_total [of "plan_and_execute env depth"
                            "process_query_with env (plan_and_execute env depth) q" env r q a,
                         OF Suc s2]
    obtain x a' where "plan_try env (plan_and_execute env depth)
                         (process_query_with env (plan_and_execute env depth) q) r q a = Some (x, a')"
      and "length (stdin a') \<le> length (stdin a)" by blast
    then show "\<exists>x a'. plan_and_execute env (Suc depth) r q a = Some (x, a')
                 \<and> length (stdin a') \<le> length (stdin a)"
      by (cases x) (auto simp: except_action_def)
  qed
qed

text \<open>A turn always ends.\<close>

theorem process_query_returns:
  "\<exists>r a'. process_query env depth query a = Some (r, a')"
proof -
  have "steady (process_query_with env (plan_and_execute env depth) query)"
    by (rule process_query_with_steady) (rule plan_and_execute_steady)
  then show ?thesis
    unfolding process_query_def steady_def by blast
qed

section \<open>Properties of the response parser\<close>

lemma startswith_Cons:
  "startswith s (c # p) = (case s of [] \<Rightarrow> False | d # t \<Rightarrow> d = c \<and> startswith t p)"
  by (cases s) (auto simp: startswith_def)

lemma startswith_Nil: "startswith s []"
  by (simp add: startswith_def)

lemma after_colon_action: "startswith l ''ACTION:'' \<Longrightarrow> after_colon l = drop 7 l"
  by (auto simp: startswith_Cons startswith_Nil after_colon_def split: list.splits)

lemma after_colon_explanation: "startswith l ''EXPLANATION:'' \<Longrightarrow> after_colon l = drop 12 l"
  by (auto simp: startswith_Cons startswith_Nil after_colon_def split: list.splits)

lemma explanation_not_action: "startswith l ''EXPLANATION:'' \<Longrightarrow> \<not> startswith l ''ACTION:''"
  by (auto simp: startswith_Cons split: list.splits)

text \<open>
  The line scan keeps, for each field, the value of the last line that matches: every
  matching line overwrites what an earlier one stored.
\<close>

lemma foldl_parse_line_action:
  "fst (foldl parse_line acc ls) =
     (let ms = filter (\<lambda>l. startswith l ''ACTION:'') ls
      in if ms = [] then fst acc else Some (str_upper (str_strip (drop 7 (last ms)))))"
proof (induction ls arbitrary: acc)
  case Nil
  show ?case by simp
next
  case (Cons l ls)
  show ?case
  proof (cases "startswith l ''ACTION:''")
    case True
    then have "fst (parse_line acc l) = Some (str_upper (str_strip (drop 7 l)))"
      by (simp add: parse_line_def after_colon_action)
    with True Cons.IH [of "parse_line acc l"] show ?thesis
      by (simp add: Let_def)
  next
    case False
    then have "fst (parse_line acc l) = fst acc"
      by (simp add: parse_line_def)
    with False Cons.IH [of "parse_line acc l"] show ?thesis
      by (simp add: Let_def)
  qed
qed

lemma foldl_parse_line_explanation:
  "snd (foldl parse_line acc ls) =
     (let ms = filter (\<lambda>l. startswith l ''EXPLANATION:'') ls
      in if ms = [] then snd acc else Some (str_strip (drop 12 (last ms))))"
proof (induction ls arbitrary: acc)
  case Nil
  show ?case by simp
next
  case (Cons l ls)
  show ?case
  proof (cases "startswith l ''EXPLANATION:''")
    case True
    then have "snd (parse_line acc l) = Some (str_strip (drop 12 l))"
      by (simp add: parse_line_def after_colon_explanation explanation_not_action)
    with True Cons.IH [of "parse_line acc l"] show ?thesis
      by (simp add: Let_def)
  next
    case False
    then have "snd (parse_line acc l) = snd acc"
      by (simp add: parse_line_def)
    with False Cons.IH [of "parse_line acc l"] show ?thesis
      by (simp add: Let_def)
  qed
qed

text \<open>
  Claim C5, as the code has it. For a response without the marker
  \<open>ACTION: CODE_GENERATION\<close>, the action is the trimmed, upper-cased remainder of the
  last line that starts with \<open>ACTION:\<close>, and the explanation is the trimmed remainder
  of the last line that starts with \<open>EXPLANATION:\<close>; a field with no matching line
  stays unset, and no code is extracted.
\<close>

theorem parse_last_match_wins:
  assumes "\<not> contains t ''ACTION: CODE_GENERATION''"
  shows "action (parse_response t) =
           (let ms = filter (\<lambda>l. startswith l ''ACTION:'') (split_on CHR 10 t)
            in if ms = [] then None else Some (str_upper (str_strip (drop 7 (last ms)))))
       \<and> explanation (parse_response t) =
           (let ms = filter (\<lambda>l. startswith l ''EXPLANATION:'') (split_on CHR 10 t)
            in if ms = [] then None else Some (str_strip (drop 12 (last ms))))
       \<and> code (parse_response t) = None"
  using assms
  by (simp add: parse_response_def parse_lines_def Let_def
      foldl_parse_line_action [unfolded Let_def] foldl_parse_line_explanation [unfolded Let_def])

theorem parse_last_match_wins_witness:
  "\<not> contains ''ACTION: forecast\<newline>EXPLANATION: one\<newline>ACTION: general\<newline>EXPLANATION: two''
        ''ACTION: CODE_GENERATION''
   \<and> action (parse_response
               ''ACTION: forecast\<newline>EXPLANATION: one\<newline>ACTION: general\<newline>EXPLANATION: two'')
       = Some ''GENERAL''
   \<and> explanation (parse_response
               ''ACTION: forecast\<newline>EXPLANATION: one\<newline>ACTION: general\<newline>EXPLANATION: two'')
       = Some ''two''"
proof -
  have h: "\<not> contains ''ACTION: forecast\<newline>EXPLANATION: one\<newline>ACTION: general\<newline>EXPLANATION: two''
               ''ACTION: CODE_GENERATION''"
    by code_simp
  have a: "(let ms = filter (\<lambda>l. startswith l ''ACTION:'')
                (split_on CHR 10 ''ACTION: forecast\<newline>EXPLANATION: one\<newline>ACTION: general\<newline>EXPLANATION: two'')
            in if ms = [] then None else Some (str_upper (str_strip (drop 7 (last ms)))))
           = Some ''GENERAL''"
    by code_simp
  have e: "(let ms = filter (\<lambda>l. startswith l ''EXPLANATION:'')
                (split_on CHR 10 ''ACTION: forecast\<newline>EXPLANATION: one\<newline>ACTION: general\<newline>EXPLANATION: two'')
            in if ms = [] then None else Some (str_strip (drop 12 (last ms))))
           = Some ''two''"
    by code_simp
  show ?thesis
    using h parse_last_match_wins [OF h] unfolding a e by simp
qed

text \<open>
  The claim as the specification words it, that the first matching line is the one
  honoured, fails on a response with two \<open>EXPLANATION:\<close> lines, and on one with two
  \<open>ACTION:\<close> lines: the parser answers with the second.
\<close>

theorem first_match_counterexample:
  "\<not> contains ''EXPLANATION: one\<newline>EXPLANATION: two'' ''ACTION: CODE_GENERATION''
   \<and> split_on CHR 10 ''EXPLANATION: one\<newline>EXPLANATION: two''
       = [''EXPLANATION: one'', ''EXPLANATION: two'']
   \<and> startswith ''EXPLANATION: one'' ''EXPLANATION:''
   \<and> str_strip (after_colon ''EXPLANATION: one'') = ''one''
   \<and> explanation (parse_response ''EXPLANATION: one\<newline>EXPLANATION: two'') = Some ''two''
   \<and> \<not> contains ''ACTION: forecast\<newline>ACTION: general'' ''ACTION: CODE_GENERATION''
   \<and> split_on CHR 10 ''ACTION: forecast\<newline>ACTION: general''
       = [''ACTION: forecast'', ''ACTION: general'']
   \<and> startswith ''ACTION: forecast'' ''ACTION:''
   \<and> str_upper (str_strip (after_colon ''ACTION: forecast'')) = ''FORECAST''
   \<and> action (parse_response ''ACTION: forecast\<newline>ACTION: general'') = Some ''GENERAL''"
  by code_simp

subsection \<open>The fenced code block\<close>

lemma find_aux_first:
  assumes "i \<le> length s" and "startswith (drop i s) sub"
      and "\<forall>j<i. \<not> startswith (drop j s) sub"
  shows "find_aux sub s n = int (n + i)"
  using assms
proof (induction s arbitrary: i n)
  case Nil
  then show ?case by (simp add: startswith_def)
next
  case (Cons c cs)
  show ?case
  proof (cases i)
    case 0
    with Cons.prems show ?thesis by simp
  next
    case (Suc i')
    from Cons.prems(3) Suc have no: "\<not> startswith (c # cs) sub"
      by (metis drop0 zero_less_Suc)
    have "\<forall>j<i'. \<not> startswith (drop j cs) sub"
      using Cons.prems(3) Suc by (metis Suc_less_eq drop_Suc_Cons)
    with Cons.IH [of i' "Suc n"] Cons.prems Suc have "find_aux sub cs (Suc n) = int (Suc n + i')"
      by simp
    with no Suc show ?thesis by simp
  qed
qed

lemma find_aux_none:
  assumes "\<forall>j\<le>length s. \<not> startswith (drop j s) sub"
  shows "find_aux sub s n = - 1"
  using assms
proof (induction s arbitrary: n)
  case Nil
  then show ?case by (auto simp: startswith_def)
next
  case (Cons c cs)
  from Cons.prems have no: "\<not> startswith (c # cs) sub"
    by (metis drop0 le0)
  have "\<forall>j\<le>length cs. \<not> startswith (drop j cs) sub"
    using Cons.prems by (metis Suc_le_mono drop_Suc_Cons length_Cons)
  with Cons.IH have "find_aux sub cs (Suc n) = - 1" by simp
  with no show ?case by simp
qed

text \<open>\<open>find\<close> answers the first occurrence from the start position on, or \<open>-1\<close>.\<close>

lemma str_find_first:
  assumes "first_from s sub k i"
  shows "str_find s sub k = int i"
proof -
  from assms have ki: "k \<le> i" and il: "i \<le> length s"
    and occ: "startswith (drop i s) sub"
    and no: "\<forall>j\<in>{k..<i}. \<not> occurs_at s sub j"
    unfolding first_from_def set_upt by (auto simp: occurs_at_def startswith_def)
  have a: "i - k \<le> length (drop k s)" using ki il by simp
  have b: "startswith (drop (i - k) (drop k s)) sub" using occ ki by simp
  have c: "\<forall>j<i - k. \<not> startswith (drop j (drop k s)) sub"
  proof (intro allI impI)
    fix j assume "j < i - k"
    then have "j + k \<in> {k..<i}" and "j + k \<le> length s" using il by auto
    with no have "\<not> occurs_at s sub (j + k)" by blast
    with \<open>j + k \<le> length s\<close> show "\<not> startswith (drop j (drop k s)) sub"
      by (simp add: occurs_at_def startswith_def)
  qed
  from find_aux_first [OF a b c, of k] ki il show ?thesis
    by (simp add: str_find_def)
qed

lemma str_find_none:
  assumes "none_from s sub k"
  shows "str_find s sub k = - 1"
proof (cases "length s < k")
  case True
  then show ?thesis by (simp add: str_find_def)
next
  case False
  have "\<forall>j\<le>length (drop k s). \<not> startswith (drop j (drop k s)) sub"
  proof (intro allI impI)
    fix j assume "j \<le> length (drop k s)"
    with False have "j + k \<in> {k..<Suc (length s)}" by auto
    moreover have "\<forall>j\<in>{k..<Suc (length s)}. \<not> occurs_at s sub j"
      using assms unfolding none_from_def set_upt .
    ultimately have "\<not> occurs_at s sub (j + k)" by blast
    with \<open>j + k \<in> {k..<Suc (length s)}\<close> show "\<not> startswith (drop j (drop k s)) sub"
      by (simp add: occurs_at_def startswith_def)
  qed
  from find_aux_none [OF this] False show ?thesis
    by (simp add: str_find_def)
qed

lemma extract_code_block:
  assumes "first_from t fence_open 0 i" and "first_from t fence_close (i + 10) e" and "i + 10 < e"
  shows "extract_code t = Some (str_strip (take (e - (i + 10)) (drop (i + 10) t)))"
  using assms str_find_first [OF assms(1)] str_find_first [OF assms(2)]
  by (simp add: extract_code_def Let_def slice_def nat_add_distrib)

lemma extract_code_unclosed:
  assumes "first_from t fence_open 0 i"
      and "none_from t fence_close (i + 10) \<or> first_from t fence_close (i + 10) (i + 10)"
  shows "extract_code t = None"
  using assms(2)
proof
  assume "none_from t fence_close (i + 10)"
  from str_find_none [OF this] str_find_first [OF assms(1)] show ?thesis
    by (simp add: extract_code_def Let_def nat_add_distrib)
next
  assume "first_from t fence_close (i + 10) (i + 10)"
  from str_find_first [OF this] str_find_first [OF assms(1)] show ?thesis
    by (simp add: extract_code_def Let_def nat_add_distrib)
qed

lemma plan_try_no_code:
  assumes "contains t ''ACTION: CODE_GENERATION''" and "extract_code t = None"
      and "\<not> startswith (str_lower q) ''fix''"
  shows "plan_try env self restart t q a = Some (Inr (Str ''No code was generated''), a)"
  using assms by (simp add: plan_try_def parse_response_def Let_def truthy_def)

lemma plan_and_execute_no_code:
  assumes "contains t ''ACTION: CODE_GENERATION''" and "extract_code t = None"
      and "\<not> startswith (str_lower q) ''fix''"
  shows "plan_and_execute env depth t q a = Some (Inr (Str ''No code was generated''), a)"
  by (cases depth) (simp_all add: plan_try_no_code [OF assms] except_action_def)

text \<open>
  Claim C2, as the code has it. Let the response contain the marker
  \<open>ACTION: CODE_GENERATION\<close> and let the opening fence (\<open>```python\<close> and a line
  break, ten characters) occur first at position \<open>i\<close>. If the next closing fence at or
  after \<open>i + 10\<close> lies strictly behind \<open>i + 10\<close>, at \<open>e\<close>, the extracted code is
  the text from \<open>i + 10\<close> up to \<open>e\<close>, trimmed. If no closing fence follows, or the
  closing fence stands at \<open>i + 10\<close> itself (an empty block), there is no code, and
  \<open>_plan_and_execute\<close>, on a query that is not a fix command, returns
  \<open>No code was generated\<close> with the agent unchanged and no exception.
\<close>

theorem code_block_extraction:
  assumes marker: "contains t ''ACTION: CODE_GENERATION''"
  shows "(\<forall>i e. first_from t fence_open 0 i \<and> first_from t fence_close (i + 10) e \<and> i + 10 < e
            \<longrightarrow> code (parse_response t) = Some (str_strip (take (e - (i + 10)) (drop (i + 10) t))))
       \<and> (\<forall>i. first_from t fence_open 0 i
               \<and> (none_from t fence_close (i + 10) \<or> first_from t fence_close (i + 10) (i + 10))
            \<longrightarrow> code (parse_response t) = None
               \<and> (\<not> startswith (str_lower q) ''fix''
                    \<longrightarrow> plan_and_execute env depth t q a
                          = Some (Inr (Str ''No code was generated''), a)))"
proof (intro conjI allI impI)
  fix i e
  assume "first_from t fence_open 0 i \<and> first_from t fence_close (i + 10) e \<and> i + 10 < e"
  then show "code (parse_response t) = Some (str_strip (take (e - (i + 10)) (drop (i + 10) t)))"
    using marker by (simp add: parse_response_def extract_code_block)
next
  fix i
  assume h: "first_from t fence_open 0 i
               \<and> (none_from t fence_close (i + 10) \<or> first_from t fence_close (i + 10) (i + 10))"
  then have none: "extract_code t = None"
    using extract_code_unclosed by blast
  then show "code (parse_response t) = None"
    using marker by (simp add: parse_response_def)
  assume "\<not> startswith (str_lower q) ''fix''"
  with marker none show "plan_and_execute env depth t q a = Some (Inr (Str ''No code was generated''), a)"
    by (rule plan_and_execute_no_code)
qed

theorem code_block_extraction_witness:
  "contains fenced_response ''ACTION: CODE_GENERATION''
   \<and> first_from fenced_response fence_open 0 30
   \<and> first_from fenced_response fence_close 40 50
   \<and> code (parse_response fenced_response) = Some ''total = 6''
   \<and> contains unclosed_response ''ACTION: CODE_GENERATION''
   \<and> first_from unclosed_response fence_open 0 30
   \<and> none_from unclosed_response fence_close 40
   \<and> plan_and_execute (demo_env silent_oracle) 3 unclosed_response ''sum the values'' (new_agent [])
       = Some (Inr (Str ''No code was generated''), new_agent [])"
proof -
  have m1: "contains fenced_response ''ACTION: CODE_GENERATION''" by code_simp
  have o1: "first_from fenced_response fence_open 0 30" by code_simp
  have c1: "first_from fenced_response fence_close (30 + 10) 50" by code_simp
  have t1: "str_strip (take (50 - (30 + 10)) (drop (30 + 10) fenced_response)) = ''total = 6''"
    by code_simp
  have m2: "contains unclosed_response ''ACTION: CODE_GENERATION''" by code_simp
  have o2: "first_from unclosed_response fence_open 0 30" by code_simp
  have c2: "none_from unclosed_response fence_close (30 + 10)" by code_simp
  have q: "\<not> startswith (str_lower ''sum the values'') ''fix''" by code_simp
  have r1: "code (parse_response fenced_response) = Some ''total = 6''"
    using code_block_extraction [OF m1] o1 c1 t1 by fastforce
  have r2: "plan_and_execute (demo_env silent_oracle) 3 unclosed_response ''sum the values'' (new_agent [])
       = Some (Inr (Str ''No code was generated''), new_agent [])"
    using code_block_extraction [OF m2, of "''sum the values''"] o2 c2 q by blast
  show ?thesis
    using m1 o1 c1 r1 m2 o2 c2 r2 by simp
qed

text \<open>
  The claim as the specification words it fails twice. A block whose closing fence
  follows the opening fence at once is well formed and holds the empty text, yet the
  extracted code is null, not the empty text. And on a query that starts with \<open>fix\<close>
  the response is never parsed: with an unclosed fence the answer is not
  \<open>No code was generated\<close>.
\<close>

theorem empty_block_counterexample:
  "contains empty_block_response ''ACTION: CODE_GENERATION''
   \<and> first_from empty_block_response fence_open 0 30
   \<and> first_from empty_block_response fence_close 40 40
   \<and> str_strip (take (40 - 40) (drop 40 empty_block_response)) = []
   \<and> code (parse_response empty_block_response) = None
   \<and> contains unclosed_response ''ACTION: CODE_GENERATION''
   \<and> first_from unclosed_response fence_open 0 30
   \<and> none_from unclosed_response fence_close 40
   \<and> plan_and_execute (demo_env silent_oracle) 3 unclosed_response ''fix the chart'' (new_agent [])
       = Some (Inr (Str ''Error executing action: object of type 'NoneType' has no len()''),
               new_agent [])"
  by code_simp

section \<open>Properties of \<open>execute_code\<close>\<close>

lemma execute_code_after_check:
  assumes "check_and_install_dependencies env (prepare code_snippet) ins = (Inr True, ins')"
  shows "execute_code env code_snippet df ins =
           (case try_body env (prepare code_snippet) df of
              (Inl (e, dbg), df') \<Rightarrow> (on_exception env e dbg, df', ins')
            | (Inr r, df') \<Rightarrow> (Inr r, df', ins'))"
  using assms by (simp add: execute_code_def Let_def)

lemma on_exception_failure: "on_exception env e dbg = Inr r \<Longrightarrow> \<not> success r"
  by (auto simp: on_exception_def split: if_splits)




subsection \<open>Returned bindings\<close>

lemma collect_results_untouched:
  assumes "lv = initial_locals \<or> (\<exists>v. lv = initial_locals @ [(''df'', v)])"
  shows "collect_results lv = []"
  using assms by (auto simp: collect_results_def initial_locals_def)

lemma success_from_try_body:
  assumes "execute_code env code_snippet df ins = (Inr r, df', ins')" and "success r"
  shows "try_body env (prepare code_snippet) df = (Inr r, df')"
proof -
  obtain chk ins1 where chk: "check_and_install_dependencies env (prepare code_snippet) ins = (chk, ins1)"
    by (cases "check_and_install_dependencies env (prepare code_snippet) ins")
  obtain body df1 where body: "try_body env (prepare code_snippet) df = (body, df1)"
    by (cases "try_body env (prepare code_snippet) df")
  from assms chk have ok: "chk = Inr True"
    by (auto simp: execute_code_def Let_def split: sum.splits bool.splits)
  show ?thesis
  proof (cases body)
    case (Inl p)
    obtain e dbg where p: "p = (e, dbg)" by (cases p)
    from assms(1) chk ok body Inl p have "on_exception env e dbg = Inr r"
      by (simp add: execute_code_def Let_def)
    with assms(2) show ?thesis using on_exception_failure by blast
  next
    case (Inr r')
    with assms(1) chk ok body show ?thesis
      by (simp add: execute_code_def Let_def)
  qed
qed

lemma try_body_success:
  assumes "try_body env src df = (Inr r, df')"
  shows "\<exists>dbg lv df1. bind_dataset env df (initial_debug_info df) initial_locals = (Inr (dbg, lv), df1)
           \<and> raised (exec_snippet env src lv df1) = None
           \<and> results r = Some (collect_results (locals_after (exec_snippet env src lv df1)))
           \<and> output_text r = printed (exec_snippet env src lv df1)"
  using assms
  by (auto simp: try_body_def Let_def split: prod.splits sum.splits option.splits)

lemma bind_dataset_locals:
  assumes "bind_dataset env df dbg0 initial_locals = (Inr (dbg, local_vars), df1)"
  shows "local_vars = initial_locals @ (case df1 of None \<Rightarrow> [] | Some f \<Rightarrow> [(''df'', DataFrame f)])"
  using assms
  by (auto simp: bind_dataset_def Let_def split: option.splits sum.splits)

text \<open>
  Claim C9, as the code has it. The text that \<open>execute_code\<close> runs is the snippet
  itself when the snippet does not contain \<open>import plotly\<close>; when it does, anywhere,
  the text is the snippet behind two lines that import \<open>warnings\<close> and set a filter.
  The namespace handed to the run holds \<open>pd\<close>, \<open>np\<close> and, when there is a dataset,
  \<open>df\<close>. The bindings of a successful result are the entries that the run of this
  text left in the namespace, without \<open>df\<close>, \<open>pd\<close>, \<open>np\<close> and the names that start
  with two underscores, and its output is what the run printed; so for a snippet with
  \<open>import plotly\<close> in it they are what the prefix and the snippet left together. In
  particular, for a frame whose \<open>date\<close> column pandas converts without an exception,
  and a snippet that does not contain \<open>import plotly\<close>, imports nothing, raises
  nothing, prints nothing and leaves namespace and frame as they are, \<open>execute_code\<close>
  succeeds with no returned bindings and empty output; the frame it leaves has the
  converted \<open>date\<close> column.
\<close>

theorem execute_code_returned_bindings:
  "(\<forall>r df' ins'. execute_code env code_snippet df ins = (Inr r, df', ins') \<and> success r \<longrightarrow>
       (\<exists>dbg local_vars df1.
           bind_dataset env df (initial_debug_info df) initial_locals = (Inr (dbg, local_vars), df1)
         \<and> local_vars =
             initial_locals @ (case df1 of None \<Rightarrow> [] | Some f \<Rightarrow> [(''df'', DataFrame f)])
         \<and> (\<not> contains code_snippet ''import plotly'' \<longrightarrow>
               results r =
                 Some (filter (\<lambda>(k, v). k \<notin> {''df'', ''pd'', ''np''} \<and> \<not> startswith k ''__'')
                         (locals_after (exec_snippet env code_snippet local_vars df1)))
             \<and> output_text r = printed (exec_snippet env code_snippet local_vars df1))
         \<and> (contains code_snippet ''import plotly'' \<longrightarrow>
               results r =
                 Some (filter (\<lambda>(k, v). k \<notin> {''df'', ''pd'', ''np''} \<and> \<not> startswith k ''__'')
                         (locals_after (exec_snippet env
                            (''import warnings\<newline>warnings.filterwarnings('ignore', 'Importing plotly failed')\<newline>''
                             @ code_snippet) local_vars df1)))
             \<and> output_text r =
                 printed (exec_snippet env
                            (''import warnings\<newline>warnings.filterwarnings('ignore', 'Importing plotly failed')\<newline>''
                             @ code_snippet) local_vars df1))))
   \<and> (\<forall>f c c'. \<not> contains code_snippet ''import plotly''
         \<and> get_column f ''date'' = Some c \<and> to_datetime env c = Inr c'
         \<and> extract_imports env code_snippet = []
         \<and> exec_snippet env code_snippet
             (initial_locals @ [(''df'', DataFrame (set_column f ''date'' c'))])
             (Some (set_column f ''date'' c'))
           = \<lparr>raised = None,
              locals_after = initial_locals @ [(''df'', DataFrame (set_column f ''date'' c'))],
              printed = [],
              frame_after = Some (set_column f ''date'' c')\<rparr> \<longrightarrow>
       (\<exists>r. execute_code env code_snippet (Some f) ins = (Inr r, Some (set_column f ''date'' c'), ins)
          \<and> success r \<and> results r = Some [] \<and> output_text r = []))"
proof (intro conjI allI impI)
  fix r df' ins'
  let ?keep = "\<lambda>(k, v). k \<notin> {''df'', ''pd'', ''np''} \<and> \<not> startswith k ''__''"
  assume run: "execute_code env code_snippet df ins = (Inr r, df', ins') \<and> success r"
  then have "try_body env (prepare code_snippet) df = (Inr r, df')"
    using success_from_try_body by blast
  from try_body_success [OF this]
  obtain dbg local_vars df1 where
    bound: "bind_dataset env df (initial_debug_info df) initial_locals = (Inr (dbg, local_vars), df1)"
    and res: "results r =
           Some (collect_results (locals_after (exec_snippet env (prepare code_snippet) local_vars df1)))"
    and out: "output_text r = printed (exec_snippet env (prepare code_snippet) local_vars df1)"
    by blast
  have keep: "collect_results ns = filter ?keep ns" for ns
    by (simp add: collect_results_def)
  have plain: "\<not> contains code_snippet ''import plotly'' \<Longrightarrow> prepare code_snippet = code_snippet"
    by (simp add: prepare_def)
  have prefixed: "contains code_snippet ''import plotly'' \<Longrightarrow>
      prepare code_snippet =
        ''import warnings\<newline>warnings.filterwarnings('ignore', 'Importing plotly failed')\<newline>''
        @ code_snippet"
    by (simp add: prepare_def)
  show "\<exists>dbg local_vars df1.
           bind_dataset env df (initial_debug_info df) initial_locals = (Inr (dbg, local_vars), df1)
         \<and> local_vars =
             initial_locals @ (case df1 of None \<Rightarrow> [] | Some f \<Rightarrow> [(''df'', DataFrame f)])
         \<and> (\<not> contains code_snippet ''import plotly'' \<longrightarrow>
               results r = Some (filter ?keep (locals_after (exec_snippet env code_snippet local_vars df1)))
             \<and> output_text r = printed (exec_snippet env code_snippet local_vars df1))
         \<and> (contains code_snippet ''import plotly'' \<longrightarrow>
               results r =
                 Some (filter ?keep
                         (locals_after (exec_snippet env
                            (''import warnings\<newline>warnings.filterwarnings('ignore', 'Importing plotly failed')\<newline>''
                             @ code_snippet) local_vars df1)))
             \<and> output_text r =
                 printed (exec_snippet env
                            (''import warnings\<newline>warnings.filterwarnings('ignore', 'Importing plotly failed')\<newline>''
                             @ code_snippet) local_vars df1))"
  proof (intro exI conjI impI)
    show "bind_dataset env df (initial_debug_info df) initial_locals = (Inr (dbg, local_vars), df1)"
      by (rule bound)
    show "local_vars =
            initial_locals @ (case df1 of None \<Rightarrow> [] | Some f \<Rightarrow> [(''df'', DataFrame f)])"
      by (rule bind_dataset_locals [OF bound])
  next
    assume "\<not> contains code_snippet ''import plotly''"
    then show "results r = Some (filter ?keep (locals_after (exec_snippet env code_snippet local_vars df1)))"
      using res keep plain by simp
  next
    assume "\<not> contains code_snippet ''import plotly''"
    then show "output_text r = printed (exec_snippet env code_snippet local_vars df1)"
      using out plain by simp
  next
    assume "contains code_snippet ''import plotly''"
    then show "results r =
                 Some (filter ?keep
                         (locals_after (exec_snippet env
                            (''import warnings\<newline>warnings.filterwarnings('ignore', 'Importing plotly failed')\<newline>''
                             @ code_snippet) local_vars df1)))"
      using res keep prefixed by simp
  next
    assume "contains code_snippet ''import plotly''"
    then show "output_text r =
                 printed (exec_snippet env
                            (''import warnings\<newline>warnings.filterwarnings('ignore', 'Importing plotly failed')\<newline>''
                             @ code_snippet) local_vars df1)"
      using out prefixed by simp
  qed
next
  fix f c c'
  let ?f' = "set_column f ''date'' c'"
  let ?lv = "initial_locals @ [(''df'', DataFrame ?f')]"
  assume scen: "\<not> contains code_snippet ''import plotly''
         \<and> get_column f ''date'' = Some c \<and> to_datetime env c = Inr c'
         \<and> extract_imports env code_snippet = []
         \<and> exec_snippet env code_snippet ?lv (Some ?f')
           = \<lparr>raised = None, locals_after = ?lv, printed = [], frame_after = Some ?f'\<rparr>"
  then have plain: "prepare code_snippet = code_snippet"
    by (simp add: prepare_def)
  from scen have deps: "check_and_install_dependencies env (prepare code_snippet) ins = (Inr True, ins)"
    by (simp add: plain check_and_install_dependencies_def)
  have bound: "bind_dataset env (Some f) (initial_debug_info (Some f)) initial_locals =
       (Inr ((initial_debug_info (Some f))\<lparr>execution_step := ''datetime conversion done''\<rparr>, ?lv),
        Some ?f')"
    using scen by (simp add: bind_dataset_def Let_def)
  have "collect_results ?lv = []"
    by (rule collect_results_untouched) simp
  then show "\<exists>r. execute_code env code_snippet (Some f) ins = (Inr r, Some ?f', ins)
          \<and> success r \<and> results r = Some [] \<and> output_text r = []"
    using scen by (simp add: execute_code_after_check [OF deps] plain try_body_def bound Let_def)
qed

theorem execute_code_returned_bindings_witness:
  "(\<exists>r. execute_code (demo_env silent_oracle) ''df.shape'' (Some demo_frame) [] =
          (Inr r, Some (set_column demo_frame ''date''
                         \<lparr>cname = ''date'', dtype = ''datetime64[ns]'',
                          cells = [Some ''2024-01-01'', Some ''2024-01-02'']\<rparr>), [])
       \<and> success r \<and> results r = Some [] \<and> output_text r = [])
   \<and> (\<exists>r. execute_code (demo_env silent_oracle) ''df.shape  # import plotly'' (Some demo_frame) [] =
          (Inr r, Some (set_column demo_frame ''date''
                         \<lparr>cname = ''date'', dtype = ''datetime64[ns]'',
                          cells = [Some ''2024-01-01'', Some ''2024-01-02'']\<rparr>), [])
       \<and> success r \<and> results r = Some [(''warnings'', Object ''<module warnings>'')]
       \<and> output_text r = [])
   \<and> (\<exists>r. execute_code (demo_env silent_oracle) ''total = 6'' None [] = (Inr r, None, [])
       \<and> success r \<and> results r = Some [(''total'', Object ''6'')] \<and> output_text r = [])"
proof (intro conjI)
  let ?E = "demo_env silent_oracle"
  let ?c' = "\<lparr>cname = ''date'', dtype = ''datetime64[ns]'',
              cells = [Some ''2024-01-01'', Some ''2024-01-02'']\<rparr>"
  let ?c = "\<lparr>cname = ''date'', dtype = ''object'',
             cells = [Some ''2024-01-01'', Some ''2024-01-02'']\<rparr>"
  let ?f' = "set_column demo_frame ''date'' ?c'"
  let ?keep = "\<lambda>(k, v). k \<notin> {''df'', ''pd'', ''np''} \<and> \<not> startswith k ''__''"
  let ?prefix = "''import warnings\<newline>warnings.filterwarnings('ignore', 'Importing plotly failed')\<newline>''"
  have h0: "\<not> contains ''df.shape'' ''import plotly''"
    by code_simp
  have h1: "get_column demo_frame ''date'' = Some ?c"
    by code_simp
  have h2: "to_datetime ?E ?c = Inr ?c'"
    by code_simp
  have h3: "extract_imports ?E ''df.shape'' = []"
    by code_simp
  have h4: "exec_snippet ?E ''df.shape'' (initial_locals @ [(''df'', DataFrame ?f')]) (Some ?f')
           = \<lparr>raised = None, locals_after = initial_locals @ [(''df'', DataFrame ?f')],
              printed = [], frame_after = Some ?f'\<rparr>"
    by code_simp
  from execute_code_returned_bindings
         [where env = "?E" and code_snippet = "''df.shape''" and df = None and ins = "[]"]
  have "\<not> contains ''df.shape'' ''import plotly''
         \<and> get_column demo_frame ''date'' = Some ?c \<and> to_datetime ?E ?c = Inr ?c'
         \<and> extract_imports ?E ''df.shape'' = []
         \<and> exec_snippet ?E ''df.shape'' (initial_locals @ [(''df'', DataFrame ?f')]) (Some ?f')
           = \<lparr>raised = None, locals_after = initial_locals @ [(''df'', DataFrame ?f')],
              printed = [], frame_after = Some ?f'\<rparr> \<longrightarrow>
       (\<exists>r. execute_code ?E ''df.shape'' (Some demo_frame) [] = (Inr r, Some ?f', [])
          \<and> success r \<and> results r = Some [] \<and> output_text r = [])"
    by blast
  with h0 h1 h2 h3 h4
  show "\<exists>r. execute_code ?E ''df.shape'' (Some demo_frame) [] = (Inr r, Some ?f', [])
          \<and> success r \<and> results r = Some [] \<and> output_text r = []"
    by blast

  let ?P = "''df.shape  # import plotly''"
  let ?resP = "execute_code ?E ?P (Some demo_frame) []"
  have p0: "contains ?P ''import plotly''"
    by code_simp
  have p1: "map_sum kind success (fst ?resP) = Inr True"
    by code_simp
  have p2: "fst (snd ?resP) = Some ?f' \<and> snd (snd ?resP) = []"
    by code_simp
  have p3: "snd (bind_dataset ?E (Some demo_frame) (initial_debug_info (Some demo_frame))
                   initial_locals) = Some ?f'"
    by code_simp
  have p4: "filter ?keep (locals_after (exec_snippet ?E (?prefix @ ?P)
                (initial_locals @ [(''df'', DataFrame ?f')]) (Some ?f')))
              = [(''warnings'', Object ''<module warnings>'')]
          \<and> printed (exec_snippet ?E (?prefix @ ?P)
                (initial_locals @ [(''df'', DataFrame ?f')]) (Some ?f')) = []"
    by code_simp
  from p1 obtain rP where rP: "fst ?resP = Inr rP" and sP: "success rP"
    by (cases "fst ?resP") auto
  from rP p2 have runP: "?resP = (Inr rP, Some ?f', [])"
    by (cases ?resP) auto
  from execute_code_returned_bindings
         [where env = "?E" and code_snippet = "?P" and df = "Some demo_frame" and ins = "[]"]
       runP sP
  obtain dbg lv df1 where
    bP: "bind_dataset ?E (Some demo_frame) (initial_debug_info (Some demo_frame)) initial_locals
           = (Inr (dbg, lv), df1)"
    and lP: "lv = initial_locals @ (case df1 of None \<Rightarrow> [] | Some f \<Rightarrow> [(''df'', DataFrame f)])"
    and cP: "contains ?P ''import plotly'' \<longrightarrow>
               results rP = Some (filter ?keep (locals_after (exec_snippet ?E (?prefix @ ?P) lv df1)))
             \<and> output_text rP = printed (exec_snippet ?E (?prefix @ ?P) lv df1)"
    by blast
  from bP p3 have dP: "df1 = Some ?f'"
    by simp
  from cP p0 p4 lP dP have "results rP = Some [(''warnings'', Object ''<module warnings>'')]
      \<and> output_text rP = []"
    by simp
  with runP sP
  show "\<exists>r. ?resP = (Inr r, Some ?f', [])
       \<and> success r \<and> results r = Some [(''warnings'', Object ''<module warnings>'')]
       \<and> output_text r = []"
    by blast

  let ?T = "''total = 6''"
  let ?resT = "execute_code ?E ?T None []"
  have t0: "\<not> contains ?T ''import plotly''"
    by code_simp
  have t1: "map_sum kind success (fst ?resT) = Inr True"
    by code_simp
  have t2: "fst (snd ?resT) = None \<and> snd (snd ?resT) = []"
    by code_simp
  have t3: "snd (bind_dataset ?E None (initial_debug_info None) initial_locals) = None"
    by code_simp
  have t4: "filter ?keep (locals_after (exec_snippet ?E ?T initial_locals None))
              = [(''total'', Object ''6'')]
          \<and> printed (exec_snippet ?E ?T initial_locals None) = []"
    by code_simp
  from t1 obtain rT where rT: "fst ?resT = Inr rT" and sT: "success rT"
    by (cases "fst ?resT") auto
  from rT t2 have runT: "?resT = (Inr rT, None, [])"
    by (cases ?resT) auto
  from execute_code_returned_bindings
         [where env = "?E" and code_snippet = "?T" and df = None and ins = "[]"]
       runT sT
  obtain dbg lv df1 where
    bT: "bind_dataset ?E None (initial_debug_info None) initial_locals = (Inr (dbg, lv), df1)"
    and lT: "lv = initial_locals @ (case df1 of None \<Rightarrow> [] | Some f \<Rightarrow> [(''df'', DataFrame f)])"
    and cT: "\<not> contains ?T ''import plotly'' \<longrightarrow>
               results rT = Some (filter ?keep (locals_after (exec_snippet ?E ?T lv df1)))
             \<and> output_text rT = printed (exec_snippet ?E ?T lv df1)"
    by blast
  from bT t3 have dT: "df1 = None"
    by simp
  from cT t0 t4 lT dT have "results rT = Some [(''total'', Object ''6'')] \<and> output_text rT = []"
    by simp
  with runT sT
  show "\<exists>r. ?resT = (Inr r, None, []) \<and> success r
          \<and> results r = Some [(''total'', Object ''6'')] \<and> output_text r = []"
    by blast
qed

text \<open>
  The claim as the specification words it fails in two ways. For every frame with a
  non-empty \<open>date\<close> column, it fails on a column that pandas cannot convert: the
  conversion raises before the snippet runs, and the result is a failure. For every
  snippet, it fails on one that only reads \<open>df\<close> and has \<open>import plotly\<close> in a
  comment: run by itself the snippet leaves the namespace as it is, but \<open>execute_code\<close>
  runs it behind \<open>import warnings\<close> and returns the binding \<open>warnings\<close>.
\<close>

theorem returned_bindings_counterexample:
  "map_option cells (get_column bad_date_frame ''date'') = Some [Some ''not a date'']
   \<and> extract_imports (demo_env silent_oracle) (prepare ''df.shape'') = []
   \<and> demo_exec ''df.shape'' (initial_locals @ [(''df'', DataFrame bad_date_frame)])
         (Some bad_date_frame)
       = \<lparr>raised = None, locals_after = initial_locals @ [(''df'', DataFrame bad_date_frame)],
          printed = [], frame_after = Some bad_date_frame\<rparr>
   \<and> map_sum kind success
        (fst (execute_code (demo_env silent_oracle) ''df.shape'' (Some bad_date_frame) []))
       = Inr False
   \<and> failure_bundle
        (fst (execute_code (demo_env silent_oracle) ''df.shape'' (Some bad_date_frame) []))
       = Some (frame_info bad_date_frame)
   \<and> collect_results
        (locals_after (demo_exec ''df.shape  # import plotly''
           (initial_locals @ [(''df'', DataFrame (set_column demo_frame ''date''
               \<lparr>cname = ''date'', dtype = ''datetime64[ns]'',
                cells = [Some ''2024-01-01'', Some ''2024-01-02'']\<rparr>))])
           (Some (set_column demo_frame ''date''
               \<lparr>cname = ''date'', dtype = ''datetime64[ns]'',
                cells = [Some ''2024-01-01'', Some ''2024-01-02'']\<rparr>))))
       = []
   \<and> map_sum kind success
        (fst (execute_code (demo_env silent_oracle) ''df.shape  # import plotly''
                (Some demo_frame) []))
       = Inr True
   \<and> map_sum kind results
        (fst (execute_code (demo_env silent_oracle) ''df.shape  # import plotly''
                (Some demo_frame) []))
       = Inr (Some [(''warnings'', Object ''<module warnings>'')])"
  by code_simp

subsection \<open>Diagnostic bundles of repeated failures\<close>

lemma cname_replace:
  "map cname (map (\<lambda>old. if cname old = n then c\<lparr>cname := n\<rparr> else old) cs) = map cname cs"
  by (induction cs) auto

lemma map_of_replace:
  assumes "x \<noteq> n"
  shows "map_of (map ((\<lambda>c. (cname c, g c)) \<circ> (\<lambda>old. if cname old = n then c'\<lparr>cname := n\<rparr> else old)) cs) x
       = map_of (map (\<lambda>c. (cname c, g c)) cs) x"
  using assms by (induction cs) auto

lemma shape_set_column: "shape (frame_info (set_column f n c)) = shape (frame_info f)"
  by (simp add: frame_info_def set_column_def)

lemma columns_set_column: "columns (frame_info (set_column f n c)) = columns (frame_info f)"
  by (simp add: frame_info_def set_column_def cname_replace)

lemma dtypes_set_column:
  "x \<noteq> n \<Longrightarrow> map_of (dtypes (frame_info (set_column f n c))) x = map_of (dtypes (frame_info f)) x"
  by (simp add: frame_info_def set_column_def map_of_replace)

lemma null_counts_set_column:
  "x \<noteq> n \<Longrightarrow> map_of (null_counts (frame_info (set_column f n c))) x = map_of (null_counts (frame_info f)) x"
  by (simp add: frame_info_def set_column_def map_of_replace)

lemma data_info_bind:
  assumes "bind_dataset env df dbg lv = (Inr (dbg', lv'), df1)"
  shows "data_info dbg' = data_info dbg"
  using assms by (auto simp: bind_dataset_def Let_def split: option.splits sum.splits)

lemma frame_after_bind:
  assumes "bind_dataset env df dbg lv = (res, df1)"
  shows "df1 = df \<or> (\<exists>f c c'. df = Some f \<and> get_column f ''date'' = Some c
                          \<and> df1 = Some (set_column f ''date'' c'))"
  using assms by (auto simp: bind_dataset_def Let_def split: option.splits sum.splits)

lemma data_info_initial: "data_info (initial_debug_info df) = map_option frame_info df"
  by (cases df) (simp_all add: initial_debug_info_def)

lemma failed_try_body:
  assumes pure: "\<forall>ns f. frame_after (exec_snippet env src ns f) = f"
      and "try_body env src df = (Inl (e, dbg), df')"
  shows "data_info dbg = map_option frame_info df
       \<and> (df' = df \<or> (\<exists>f c c'. df = Some f \<and> get_column f ''date'' = Some c
                          \<and> df' = Some (set_column f ''date'' c')))"
proof (cases "bind_dataset env df (initial_debug_info df) initial_locals")
  case (Pair res df1)
  note fa = frame_after_bind [OF Pair]
  show ?thesis
  proof (cases res)
    case (Inl e')
    with Pair assms(2) fa show ?thesis
      by (auto simp: try_body_def data_info_initial)
  next
    case (Inr p)
    obtain dbg2 lv where p: "p = (dbg2, lv)" by (cases p)
    from Pair Inr p have "data_info dbg2 = data_info (initial_debug_info df)"
      using data_info_bind by blast
    with Pair Inr p assms(2) fa pure show ?thesis
      by (auto simp: try_body_def Let_def data_info_initial split: option.splits)
  qed
qed

lemma failure_with_context:
  assumes pure: "\<forall>ns f. frame_after (exec_snippet env (prepare code_snippet) ns f) = f"
      and run: "execute_code env code_snippet df ins = (Inr r, df', ins')"
      and ctx: "error_context r \<noteq> None"
  shows "failure_bundle (Inr r) = map_option frame_info df
       \<and> (df' = df \<or> (\<exists>f c c'. df = Some f \<and> get_column f ''date'' = Some c
                          \<and> df' = Some (set_column f ''date'' c')))"
proof -
  obtain chk ins1 where chk: "check_and_install_dependencies env (prepare code_snippet) ins = (chk, ins1)"
    by (cases "check_and_install_dependencies env (prepare code_snippet) ins")
  obtain body df1 where body: "try_body env (prepare code_snippet) df = (body, df1)"
    by (cases "try_body env (prepare code_snippet) df")
  from run ctx chk have ok: "chk = Inr True"
    by (auto simp: execute_code_def Let_def split: sum.splits bool.splits)
  show ?thesis
  proof (cases body)
    case (Inl p)
    obtain e dbg where p: "p = (e, dbg)" by (cases p)
    from run chk ok body Inl p have r: "on_exception env e dbg = Inr r" and d: "df' = df1"
      by (simp_all add: execute_code_def Let_def)
    from r have "failure_bundle (Inr r) = data_info dbg"
      by (auto simp: on_exception_def failure_bundle_def split: if_splits)
    with failed_try_body [OF pure body [unfolded Inl p]] d show ?thesis
      by simp
  next
    case (Inr r')
    with run chk ok body have "r = r'"
      by (simp add: execute_code_def Let_def)
    with body Inr ctx show ?thesis
      by (auto simp: try_body_def Let_def split: prod.splits sum.splits option.splits)
  qed
qed

text \<open>
  Claim C3, as the code has it. \<open>execute_code\<close> records the bundle before it converts
  the \<open>date\<close> column of the frame in place, so a second call on the same frame sees
  the converted column. For a snippet that does not change the frame, and two calls in
  a row that both fail with an error context: both carry a bundle, with the same shape
  and the same column names, and the same dtype and null count for every column other
  than \<open>date\<close>; the bundles are equal when the frame has no \<open>date\<close> column.
\<close>

theorem repeated_failure_bundles:
  assumes pure: "\<forall>ns f. frame_after (exec_snippet env (prepare code_snippet) ns f) = f"
      and twice: "execute_twice env code_snippet (Some df) ins = (Inr r1, Inr r2)"
      and ctx1: "error_context r1 \<noteq> None" and ctx2: "error_context r2 \<noteq> None"
  shows "\<exists>b1 b2. failure_bundle (Inr r1) = Some b1 \<and> failure_bundle (Inr r2) = Some b2
           \<and> shape b1 = shape b2 \<and> columns b1 = columns b2
           \<and> (\<forall>c. c \<noteq> ''date'' \<longrightarrow> map_of (dtypes b1) c = map_of (dtypes b2) c
                                \<and> map_of (null_counts b1) c = map_of (null_counts b2) c)
           \<and> (get_column df ''date'' = None \<longrightarrow> b1 = b2)"
proof -
  obtain df1 ins1 where first: "execute_code env code_snippet (Some df) ins = (Inr r1, df1, ins1)"
    using twice by (auto simp: execute_twice_def split: prod.splits)
  then obtain df2 ins2 where second: "execute_code env code_snippet df1 ins1 = (Inr r2, df2, ins2)"
    using twice by (auto simp: execute_twice_def split: prod.splits)
  from failure_with_context [OF pure first ctx1]
  have b1: "failure_bundle (Inr r1) = Some (frame_info df)"
    and df1: "df1 = Some df \<or> (\<exists>c c'. get_column df ''date'' = Some c \<and> df1 = Some (set_column df ''date'' c'))"
    by auto
  from df1 show ?thesis
  proof
    assume same: "df1 = Some df"
    from failure_with_context [OF pure second ctx2] same
    have "failure_bundle (Inr r2) = Some (frame_info df)" by simp
    with b1 show ?thesis by simp
  next
    assume "\<exists>c c'. get_column df ''date'' = Some c \<and> df1 = Some (set_column df ''date'' c')"
    then obtain c c' where c: "get_column df ''date'' = Some c" and upd: "df1 = Some (set_column df ''date'' c')"
      by blast
    from failure_with_context [OF pure second ctx2] upd
    have "failure_bundle (Inr r2) = Some (frame_info (set_column df ''date'' c'))" by simp
    with b1 c show ?thesis
      by (simp add: shape_set_column columns_set_column dtypes_set_column null_counts_set_column)
  qed
qed

theorem repeated_failure_bundles_witness:
  "\<exists>b1 b2. failure_bundle (fst (execute_twice (demo_env silent_oracle)
                 ''raise ValueError('bad')'' (Some demo_frame) [])) = Some b1
          \<and> failure_bundle (snd (execute_twice (demo_env silent_oracle)
                 ''raise ValueError('bad')'' (Some demo_frame) [])) = Some b2
          \<and> shape b1 = shape b2 \<and> columns b1 = columns b2
          \<and> map_of (dtypes b1) ''value'' = map_of (dtypes b2) ''value''
          \<and> map_of (null_counts b1) ''value'' = map_of (null_counts b2) ''value''"
proof -
  let ?E = "demo_env silent_oracle"
  let ?C = "''raise ValueError('bad')''"
  obtain x1 x2 where tw: "execute_twice ?E ?C (Some demo_frame) [] = (x1, x2)"
    by (cases "execute_twice ?E ?C (Some demo_frame) []")
  have k: "map_sum kind (\<lambda>r. error_context r \<noteq> None)
             (fst (execute_twice ?E ?C (Some demo_frame) [])) = Inr True
         \<and> map_sum kind (\<lambda>r. error_context r \<noteq> None)
             (snd (execute_twice ?E ?C (Some demo_frame) [])) = Inr True"
    by code_simp
  then obtain r1 r2 where r: "x1 = Inr r1" "x2 = Inr r2"
    and ctx: "error_context r1 \<noteq> None" "error_context r2 \<noteq> None"
    using tw by (cases x1; cases x2) auto
  have pure: "\<forall>ns f. frame_after (exec_snippet ?E (prepare ?C) ns f) = f"
    by (simp add: demo_env_def demo_exec_def)
  have v: "''value'' \<noteq> ''date''"
    by simp
  from repeated_failure_bundles [OF pure tw [unfolded r] ctx] v
  show ?thesis
    unfolding tw r by auto
qed

text \<open>
  The claim as the specification words it, with the dtypes in the bundle, fails on a
  frame whose \<open>date\<close> column holds text: the first bundle has the dtype \<open>object\<close>
  for it, the second \<open>datetime64[ns]\<close>, though the snippet leaves the frame alone.
\<close>

theorem date_dtype_counterexample:
  "frame_after (demo_exec ''raise ValueError('bad')'' initial_locals (Some demo_frame))
     = Some demo_frame
   \<and> map_option dtypes (failure_bundle (fst (execute_twice (demo_env silent_oracle)
         ''raise ValueError('bad')'' (Some demo_frame) [])))
       = Some [(''date'', ''object''), (''value'', ''int64'')]
   \<and> map_option dtypes (failure_bundle (snd (execute_twice (demo_env silent_oracle)
         ''raise ValueError('bad')'' (Some demo_frame) [])))
       = Some [(''date'', ''datetime64[ns]''), (''value'', ''int64'')]
   \<and> failure_bundle (fst (execute_twice (demo_env silent_oracle)
         ''raise ValueError('bad')'' (Some demo_frame) []))
     \<noteq> failure_bundle (snd (execute_twice (demo_env silent_oracle)
         ''raise ValueError('bad')'' (Some demo_frame) []))"
  by code_simp

section \<open>Properties of the orchestrator\<close>

subsection \<open>The repair loop\<close>

lemma on_parse_error_state:
  assumes "on_parse_error q fr r ls e a = (ex, ls', a')"
  shows "ls' = ls"
  using assms by (auto simp: on_parse_error_def split: if_splits prod.splits sum.splits)

lemma no_code_found_state:
  assumes "no_code_found restart q fr r ls a = Some (ex, ls', a')"
  shows "ls' = ls"
  using assms
  by (auto simp: no_code_found_def Let_def
           split: if_splits prod.splits sum.splits option.splits
           dest: on_parse_error_state)

lemma repair_history:
  assumes "repair env restart q r ls a = Some (ex, ls', a')"
  shows "attempt_history ls' = attempt_history ls"
  using assms
  by (auto simp: repair_def Let_def
           split: if_splits prod.splits sum.splits option.splits
           dest: no_code_found_state)

lemma loop_body_history:
  assumes body: "loop_body env restart original_query ls a = Some (ex, ls', a')"
  shows "attempt_history ls' = attempt_history ls
          \<or> (\<exists>l ins r df' ins'.
                 read_input (stdin a) = (Inr l, ins) \<and> str_lower l = ''yes''
               \<and> execute_code env (cur_code ls) (current_data a) ins = (Inr r, df', ins')
               \<and> \<not> success r
               \<and> attempt_history ls' = attempt_history ls @
                    [\<lparr>a_attempt = attempt ls + 1, a_code = cur_code ls,
                      a_error = output_text r, a_debug_info = debug_info r,
                      a_error_context = error_context r\<rparr>])"
proof (cases "read_input (stdin a)")
  case (Pair res ins)
  show ?thesis
  proof (cases res)
    case (Inl e)
    with Pair body show ?thesis by (auto simp: loop_body_def Let_def)
  next
    case (Inr l)
    show ?thesis
    proof (cases "str_lower l = ''yes''")
      case False
      with Pair Inr body show ?thesis
        by (auto simp: loop_body_def Let_def split: if_splits)
    next
      case True
      obtain x df' ins' where run: "execute_code env (cur_code ls) (current_data a) ins = (x, df', ins')"
        by (cases "execute_code env (cur_code ls) (current_data a) ins")
      show ?thesis
      proof (cases x)
        case (Inl e)
        with Pair \<open>res = Inr l\<close> True run body show ?thesis
          by (auto simp: loop_body_def Let_def)
      next
        case (Inr r)
        show ?thesis
        proof (cases "success r")
          case True
          with Pair \<open>res = Inr l\<close> \<open>str_lower l = ''yes''\<close> run Inr body show ?thesis
            by (auto simp: loop_body_def Let_def)
        next
          case False
          with Pair \<open>res = Inr l\<close> \<open>str_lower l = ''yes''\<close> run Inr body
          have "\<exists>ls2 a2. repair env restart original_query r ls2 a2 = Some (ex, ls', a')
                 \<and> attempt_history ls2 = attempt_history ls @
                  [\<lparr>a_attempt = attempt ls + 1, a_code = cur_code ls,
                    a_error = output_text r, a_debug_info = debug_info r,
                    a_error_context = error_context r\<rparr>]"
            by (auto simp: loop_body_def Let_def)
          then have "attempt_history ls' = attempt_history ls @
                  [\<lparr>a_attempt = attempt ls + 1, a_code = cur_code ls,
                    a_error = output_text r, a_debug_info = debug_info r,
                    a_error_context = error_context r\<rparr>]"
            using repair_history by fastforce
          with Pair \<open>res = Inr l\<close> \<open>str_lower l = ''yes''\<close> run Inr False show ?thesis
            by blast
        qed
      qed
    qed
  qed
qed

lemma loop_body_success:
  assumes "read_input (stdin a) = (Inr l, ins)" and "str_lower l = ''yes''"
      and "execute_code env (cur_code ls) (current_data a) ins = (Inr r, df', ins')"
      and "success r"
  shows "loop_body env restart original_query ls a =
           Some (Return (Str (format_code_output env r)),
                 ls\<lparr>attempt := attempt ls + 1\<rparr>,
                 a\<lparr>stdin := ins', current_data := df', last_code := Some (cur_code ls),
                   last_error := Some (show_results env (results r)),
                   last_result := Some (format_code_output env r)\<rparr>)"
  using assms by (simp add: loop_body_def Let_def)

lemma repair_loop_history:
  assumes run: "repair_loop env0 restart0 q0 ls0 a0 = Some y0"
  shows "fst y0 \<noteq> Next
       \<and> (\<exists>extra. attempt_history (fst (snd y0)) = attempt_history ls0 @ extra
              \<and> (\<forall>rec \<in> set extra.
                    \<exists>df ins r df' ins'.
                       execute_code env0 (a_code rec) df ins = (Inr r, df', ins')
                     \<and> \<not> success r \<and> a_error rec = output_text r
                     \<and> a_debug_info rec = debug_info r
                     \<and> a_error_context rec = error_context r))"
proof -
  let ?F = "\<lambda>(env :: env) (rec :: attempt_record).
              \<exists>df ins r df' ins'.
                 execute_code env (a_code rec) df ins = (Inr r, df', ins')
               \<and> \<not> success r \<and> a_error rec = output_text r
               \<and> a_debug_info rec = debug_info r
               \<and> a_error_context rec = error_context r"
  let ?P = "\<lambda>(env :: env) (restart :: agent \<Rightarrow> outcome option) (q :: string)
              (ls :: loop_state) (a :: agent) (y :: loop_exit \<times> loop_state \<times> agent).
              fst y \<noteq> Next
              \<and> (\<exists>extra. attempt_history (fst (snd y)) = attempt_history ls @ extra
                     \<and> (\<forall>rec \<in> set extra. ?F env rec))"
  have "?P env0 restart0 q0 ls0 a0 y0"
  proof (rule repair_loop.raw_induct [where P = ?P, OF _ run])
    fix loop env restart q ls a y
    assume IH: "\<And>e r q' ls' a' y'. loop e r q' ls' a' = Some y' \<Longrightarrow> ?P e r q' ls' a' y'"
      and eq: "Option.bind (loop_body env restart q ls a)
                 (\<lambda>(ex, ls', a').
                    if ex = Next then loop env restart q ls' a' else Some (ex, ls', a')) = Some y"
    from eq obtain ex1 ls1 a1
      where body: "loop_body env restart q ls a = Some (ex1, ls1, a1)"
        and rest: "(if ex1 = Next then loop env restart q ls1 a1
                    else Some (ex1, ls1, a1)) = Some y"
      by (auto simp: bind_eq_Some_conv)
    from loop_body_history [OF body]
    obtain extra1 where h1: "attempt_history ls1 = attempt_history ls @ extra1"
      and g1: "\<forall>rec \<in> set extra1. ?F env rec"
    proof
      assume "attempt_history ls1 = attempt_history ls"
      then show ?thesis using that [of "[]"] by simp
    next
      assume "\<exists>l ins r df' ins'.
                   read_input (stdin a) = (Inr l, ins) \<and> str_lower l = ''yes''
                 \<and> execute_code env (cur_code ls) (current_data a) ins = (Inr r, df', ins')
                 \<and> \<not> success r
                 \<and> attempt_history ls1 = attempt_history ls @
                      [\<lparr>a_attempt = attempt ls + 1, a_code = cur_code ls,
                        a_error = output_text r, a_debug_info = debug_info r,
                        a_error_context = error_context r\<rparr>]"
      then obtain l ins r df' ins' where
        r: "execute_code env (cur_code ls) (current_data a) ins = (Inr r, df', ins')" "\<not> success r"
        and h: "attempt_history ls1 = attempt_history ls @
                      [\<lparr>a_attempt = attempt ls + 1, a_code = cur_code ls,
                        a_error = output_text r, a_debug_info = debug_info r,
                        a_error_context = error_context r\<rparr>]"
        by blast
      have "?F env \<lparr>a_attempt = attempt ls + 1, a_code = cur_code ls,
                        a_error = output_text r, a_debug_info = debug_info r,
                        a_error_context = error_context r\<rparr>"
        using r by fastforce
      with h show ?thesis using that by simp
    qed
    show "?P env restart q ls a y"
    proof (cases "ex1 = Next")
      case True
      with rest have "loop env restart q ls1 a1 = Some y" by simp
      from IH [OF this] h1 g1 show ?thesis by auto
    next
      case False
      with rest have "y = (ex1, ls1, a1)" by simp
      with False h1 g1 show ?thesis by auto
    qed
  qed
  then show ?thesis .
qed

lemma repair_loop_success:
  assumes "read_input (stdin a) = (Inr l, ins)" and "str_lower l = ''yes''"
      and "execute_code env (cur_code ls) (current_data a) ins = (Inr r, df', ins')"
      and "success r"
  shows "repair_loop env restart original_query ls a =
           Some (Return (Str (format_code_output env r)),
                 ls\<lparr>attempt := attempt ls + 1\<rparr>,
                 a\<lparr>stdin := ins', current_data := df', last_code := Some (cur_code ls),
                   last_error := Some (show_results env (results r)),
                   last_result := Some (format_code_output env r)\<rparr>)"
  using assms by (subst repair_loop.simps) (simp add: loop_body_def Let_def)

text \<open>
  Claim C4. Whatever pass of the loop body is taken, from any state of the loop
  variables and of the agent: the attempt history after the pass is the one before, or
  the one before with one record appended, and the second only when the operator
  answered \<open>yes\<close>, \<open>execute_code\<close> returned a result, and that result has
  \<open>success\<close> false; the record carries the attempt number, the code and the output
  of that result. When the operator answered \<open>yes\<close> and the result has \<open>success\<close>
  true, the loop returns the formatted result there and then, with the history as it
  was on entry. And in every run of the loop that ends, the history at the end is the
  history at the start followed by records that each stem from a result of
  \<open>execute_code\<close> with \<open>success\<close> false.
\<close>

theorem attempt_record_only_after_failure:
  "(\<forall>ex ls' a'. loop_body env restart original_query ls a = Some (ex, ls', a') \<longrightarrow>
       attempt_history ls' = attempt_history ls
       \<or> (\<exists>l ins r df' ins'.
              read_input (stdin a) = (Inr l, ins) \<and> str_lower l = ''yes''
            \<and> execute_code env (cur_code ls) (current_data a) ins = (Inr r, df', ins')
            \<and> \<not> success r
            \<and> attempt_history ls' = attempt_history ls @
                 [\<lparr>a_attempt = attempt ls + 1, a_code = cur_code ls,
                   a_error = output_text r, a_debug_info = debug_info r,
                   a_error_context = error_context r\<rparr>]))
   \<and> (\<forall>l ins r df' ins'.
          read_input (stdin a) = (Inr l, ins) \<and> str_lower l = ''yes''
        \<and> execute_code env (cur_code ls) (current_data a) ins = (Inr r, df', ins')
        \<and> success r \<longrightarrow>
          repair_loop env restart original_query ls a =
            Some (Return (Str (format_code_output env r)),
                  ls\<lparr>attempt := attempt ls + 1\<rparr>,
                  a\<lparr>stdin := ins', current_data := df', last_code := Some (cur_code ls),
                    last_error := Some (show_results env (results r)),
                    last_result := Some (format_code_output env r)\<rparr>))
   \<and> (\<forall>ex ls' a'. repair_loop env restart original_query ls a = Some (ex, ls', a') \<longrightarrow>
          ex \<noteq> Next
        \<and> (\<exists>extra. attempt_history ls' = attempt_history ls @ extra
               \<and> (\<forall>rec \<in> set extra.
                     \<exists>df ins r df' ins'.
                        execute_code env (a_code rec) df ins = (Inr r, df', ins')
                      \<and> \<not> success r \<and> a_error rec = output_text r
                      \<and> a_debug_info rec = debug_info r
                      \<and> a_error_context rec = error_context r)))"
proof (intro conjI allI impI)
  fix ex ls' a'
  assume "loop_body env restart original_query ls a = Some (ex, ls', a')"
  then show "attempt_history ls' = attempt_history ls
       \<or> (\<exists>l ins r df' ins'.
              read_input (stdin a) = (Inr l, ins) \<and> str_lower l = ''yes''
            \<and> execute_code env (cur_code ls) (current_data a) ins = (Inr r, df', ins')
            \<and> \<not> success r
            \<and> attempt_history ls' = attempt_history ls @
                 [\<lparr>a_attempt = attempt ls + 1, a_code = cur_code ls,
                   a_error = output_text r, a_debug_info = debug_info r,
                   a_error_context = error_context r\<rparr>])"
    by (rule loop_body_history)
next
  fix l ins r df' ins'
  assume "read_input (stdin a) = (Inr l, ins) \<and> str_lower l = ''yes''
        \<and> execute_code env (cur_code ls) (current_data a) ins = (Inr r, df', ins')
        \<and> success r"
  then show "repair_loop env restart original_query ls a =
            Some (Return (Str (format_code_output env r)),
                  ls\<lparr>attempt := attempt ls + 1\<rparr>,
                  a\<lparr>stdin := ins', current_data := df', last_code := Some (cur_code ls),
                    last_error := Some (show_results env (results r)),
                    last_result := Some (format_code_output env r)\<rparr>)"
    using repair_loop_success by blast
next
  fix ex ls' a'
  assume run: "repair_loop env restart original_query ls a = Some (ex, ls', a')"
  from repair_loop_history [OF run] show "ex \<noteq> Next" by simp
  from repair_loop_history [OF run]
  show "\<exists>extra. attempt_history ls' = attempt_history ls @ extra
               \<and> (\<forall>rec \<in> set extra.
                     \<exists>df ins r df' ins'.
                        execute_code env (a_code rec) df ins = (Inr r, df', ins')
                      \<and> \<not> success r \<and> a_error rec = output_text r
                      \<and> a_debug_info rec = debug_info r
                      \<and> a_error_context rec = error_context r)"
    by simp
qed

theorem attempt_record_only_after_failure_witness:
  "\<exists>r ls' a'. fst (execute_code (demo_env silent_oracle) ''total = 6'' None []) = Inr r
       \<and> success r
       \<and> repair_loop (demo_env silent_oracle) no_restart ''sum the values'' first_pass
            (new_agent [Line ''yes''])
           = Some (Return (Str (format_code_output (demo_env silent_oracle) r)), ls', a')
       \<and> attempt_history ls' = []"
proof -
  let ?E = "demo_env silent_oracle"
  let ?A = "new_agent [Line ''yes'']"
  have "map_sum kind success (fst (execute_code ?E ''total = 6'' None [])) = Inr True"
    by code_simp
  then obtain r df' ins' where run: "execute_code ?E ''total = 6'' None [] = (Inr r, df', ins')"
    and ok: "success r"
    by (cases "execute_code ?E ''total = 6'' None []";
        cases "fst (execute_code ?E ''total = 6'' None [])") auto
  have inp: "read_input (stdin ?A) = (Inr ''yes'', [])"
    by (simp add: new_agent_def)
  have yes: "str_lower ''yes'' = ''yes''"
    by code_simp
  have st: "cur_code first_pass = ''total = 6''" "current_data ?A = None"
    "attempt_history first_pass = []"
    by (simp_all add: first_pass_def new_agent_def)
  from attempt_record_only_after_failure
         [where env = ?E and restart = no_restart and original_query = "''sum the values''"
            and ls = first_pass and a = ?A]
  have "read_input (stdin ?A) = (Inr ''yes'', []) \<and> str_lower ''yes'' = ''yes''
        \<and> execute_code ?E (cur_code first_pass) (current_data ?A) [] = (Inr r, df', ins')
        \<and> success r \<longrightarrow>
          repair_loop ?E no_restart ''sum the values'' first_pass ?A =
            Some (Return (Str (format_code_output ?E r)),
                  first_pass\<lparr>attempt := attempt first_pass + 1\<rparr>,
                  ?A\<lparr>stdin := ins', current_data := df', last_code := Some (cur_code first_pass),
                    last_error := Some (show_results ?E (results r)),
                    last_result := Some (format_code_output ?E r)\<rparr>)"
    by blast
  with inp yes run ok st
  have "repair_loop ?E no_restart ''sum the values'' first_pass ?A =
            Some (Return (Str (format_code_output ?E r)),
                  first_pass\<lparr>attempt := attempt first_pass + 1\<rparr>,
                  ?A\<lparr>stdin := ins', current_data := df', last_code := Some (cur_code first_pass),
                    last_error := Some (show_results ?E (results r)),
                    last_result := Some (format_code_output ?E r)\<rparr>)"
    by simp
  with run ok st show ?thesis by auto
qed

subsection \<open>Actions that need a dataset\<close>

text \<open>
  The \<open>FORECAST\<close> branch tests for a dataset and answers with a message when there
  is none.
\<close>

lemma forecast_without_dataset:
  assumes "\<not> startswith (str_lower q) ''fix''"
      and "action (parse_response t) = Some ''FORECAST''"
      and "current_data a = None"
  shows "plan_and_execute env depth t q a =
           Some (Inr (Str ''Please analyze a dataset first using the 'analyze' command.''), a)"
  using assms
  by (cases depth)
     (simp_all add: plan_try_def Let_def dispatch_def except_action_def)

text \<open>
  Claim C6 holds for \<open>FORECAST\<close> (above) and fails for \<open>DATA_ANALYSIS\<close>, the branch
  without the test: with no dataset loaded and an empty context, \<open>process_dataset\<close>
  is called with no path, \<open>read_csv\<close> raises, and the answer is the handler's
  \<open>Error executing action\<close> text, not the request to load a dataset.
\<close>

theorem data_analysis_without_dataset:
  "current_data (new_agent []) = None
   \<and> action (parse_response ''ACTION: DATA_ANALYSIS\<newline>EXPLANATION: describe the data'')
       = Some ''DATA_ANALYSIS''
   \<and> plan_and_execute (demo_env silent_oracle) 3
       ''ACTION: DATA_ANALYSIS\<newline>EXPLANATION: describe the data''
       ''describe the data'' (new_agent []) =
     Some (Inr (Str ''Error executing action: Invalid file path or buffer object type: <class 'NoneType'>''),
           new_agent [])"
  by code_simp

subsection \<open>The turn handler\<close>

text \<open>
  Claim C7. In a session with no last code or no last result (unset or empty), a query
  that starts with \<open>fix\<close>, in any case of the letters, returns the notice
  \<open>No previous code execution to fix. Please run a command first.\<close>; nothing is
  raised and the agent, with its memory, its last-execution fields, the oracle's call
  count and the pending input, is unchanged.
\<close>

theorem fix_without_previous_execution:
  assumes "startswith (str_lower query) ''fix''"
      and "\<not> truthy (last_code a) \<or> \<not> truthy (last_result a)"
  shows "process_query env depth query a =
           Some (Inr (Str ''No previous code execution to fix. Please run a command first.''), a)"
  using assms by (auto simp add: process_query_def process_query_with_def)

theorem fix_without_previous_execution_witness:
  "startswith (str_lower ''fix the plot'') ''fix''
   \<and> \<not> truthy (last_code (new_agent [Line ''yes'']))
   \<and> process_query (demo_env silent_oracle) 3 ''fix the plot'' (new_agent [Line ''yes'']) =
         Some (Inr (Str ''No previous code execution to fix. Please run a command first.''),
               new_agent [Line ''yes''])"
proof -
  have h1: "startswith (str_lower ''fix the plot'') ''fix''"
    by code_simp
  have h3: "\<not> truthy (last_code (new_agent [Line ''yes'']))"
    by (simp add: new_agent_def truthy_def)
  then have h2: "\<not> truthy (last_code (new_agent [Line ''yes'']))
                 \<or> \<not> truthy (last_result (new_agent [Line ''yes'']))"
    by simp
  show ?thesis
    using h1 h3 fix_without_previous_execution [OF h1 h2, of "demo_env silent_oracle" 3] by simp
qed

text \<open>
  Claim C10. In a session with a last code and a last result, a query that starts with
  \<open>fix\<close> and has nothing but white space after these three characters (the query
  \<open>fix\<close> itself among them) returns the request for instructions; the agent is
  unchanged, and so is the count of oracle calls: the oracle is not invoked.
\<close>

theorem fix_without_instructions:
  assumes "startswith (str_lower query) ''fix''"
      and "truthy (last_code a)" and "truthy (last_result a)"
      and "str_strip (drop 3 query) = []"
  shows "process_query env depth query a =
           Some (Inr (Str (''Please provide instructions for the fix, e.g., ''
                           @ quote ''fix write results to csv'')), a)"
  using assms by (simp add: process_query_def process_query_with_def)

theorem fix_without_instructions_witness:
  "startswith (str_lower ''fix'') ''fix''
   \<and> truthy (last_code agent_with_history) \<and> truthy (last_result agent_with_history)
   \<and> str_strip (drop 3 ''fix'') = []
   \<and> process_query (demo_env failing_oracle) 3 ''fix'' agent_with_history =
         Some (Inr (Str (''Please provide instructions for the fix, e.g., ''
                         @ quote ''fix write results to csv'')), agent_with_history)"
proof -
  have h1: "startswith (str_lower ''fix'') ''fix''"
    by code_simp
  have h2: "truthy (last_code agent_with_history)"
    by (simp add: agent_with_history_def truthy_def)
  have h3: "truthy (last_result agent_with_history)"
    by (simp add: agent_with_history_def truthy_def)
  have h4: "str_strip (drop 3 ''fix'') = []"
    by code_simp
  show ?thesis
    using h1 h2 h3 h4 fix_without_instructions [OF h1 h2 h3 h4, of "demo_env failing_oracle" 3]
    by simp
qed

text \<open>
  On a query that is not a fix command the oracle is invoked inside the \<open>try\<close> of
  \<open>process_query\<close>: an exception below \<open>Exception\<close> becomes a message, and no
  such exception leaves the turn, wherever it was raised.
\<close>

lemma query_oracle_failure_reported:
  assumes "\<not> startswith (str_lower query) ''fix''" and "llm a"
      and "llm_invoke env (llm_calls a) = Inl e" and "is_exception e"
  shows "process_query env depth query a =
           Some (Inr (Str (''Error processing query: '' @ msg e)),
                 a\<lparr>llm_calls := Suc (llm_calls a)\<rparr>)"
  using assms
  by (simp add: process_query_def process_query_with_def invoke_def except_query_def)

lemma process_query_catches:
  assumes "\<not> startswith (str_lower query) ''fix''"
      and "process_query env depth query a = Some (Inl e, a')"
  shows "\<not> is_exception e"
  using assms
  by (auto simp: process_query_def process_query_with_def except_query_def
           split: if_splits option.splits prod.splits sum.splits)

text \<open>
  Claim C8 holds on that path (above) and fails on the fix path, where the first
  invocation of the oracle stands outside every \<open>try\<close>: with a previous execution
  on record and instructions given, an oracle that raises \<open>ConnectionError\<close> makes
  \<open>process_query\<close> raise it.
\<close>

theorem fix_path_oracle_failure_propagates:
  "process_query (demo_env failing_oracle) 3 ''fix write results to csv'' agent_with_history =
     Some (Inl (Exn ExceptionClass ''ConnectionError'' ''connection refused''),
           agent_with_history\<lparr>llm_calls := 1\<rparr>)"
  by code_simp

end
